theory Spec2Isabelle
  imports Main "HOL-Library.Word"
begin

section \<open>Pieces of the Go standard library that the program calls\<close>

text \<open>
  The coordinator (the lambda's \<^verbatim>\<open>main.go\<close>) and the batch client
  (\<^verbatim>\<open>photo_backup_batch.go\<close>) call a handful of standard-library functions whose
  results decide the properties below. They are written out here after the Go
  sources (\<^verbatim>\<open>time/format.go\<close>, \<^verbatim>\<open>path/path.go\<close>, \<^verbatim>\<open>strings\<close>,
  \<^verbatim>\<open>strconv\<close>, \<^verbatim>\<open>net/textproto\<close>). A Go \<^verbatim>\<open>string\<close> is a byte
  sequence, here a \<^typ>\<open>string\<close>.
\<close>

subsection \<open>Decimal digits\<close>

definition digit_char :: "nat \<Rightarrow> char" where
  "digit_char d = ''0123456789'' ! (d mod 10)"

definition isDigit :: "char \<Rightarrow> bool" where
  "isDigit c = (c \<in> set ''0123456789'')"

fun dec :: "nat \<Rightarrow> string" where
  "dec n = (if n < 10 then [digit_char n] else dec (n div 10) @ [digit_char (n mod 10)])"

declare dec.simps [simp del]

text \<open>\<^verbatim>\<open>strconv.Itoa\<close>: a minus sign for a negative number, then the decimal digits.\<close>

definition Itoa :: "int \<Rightarrow> string" where
  "Itoa i = (if i < 0 then ''-'' @ dec (nat (- i)) else dec (nat i))"

text \<open>
  \<^verbatim>\<open>appendInt(b, x, width)\<close> of \<^verbatim>\<open>time/format.go\<close>: the sign, zero padding up to
  \<^verbatim>\<open>width\<close> digits, the digits.
\<close>

definition appendInt :: "int \<Rightarrow> nat \<Rightarrow> string" where
  "appendInt x width =
     (let ds = dec (nat \<bar>x\<bar>)
      in (if x < 0 then ''-'' else '''') @ replicate (width - length ds) (CHR ''0'') @ ds)"

subsection \<open>Instants and their formatting\<close>

text \<open>
  A \<^verbatim>\<open>time.Time\<close> is modelled by what \<^verbatim>\<open>Time.Format\<close> reads of it: the civil date
  and clock in the value's own location, the nanosecond within the second, and the
  location's offset east of UTC in seconds. The zero \<^verbatim>\<open>time.Time{}\<close> is
  January 1 of year 1, 00:00:00 UTC.
\<close>

record Time =
  Year :: int
  Month :: nat
  Day :: nat
  Hour :: nat
  Minute :: nat
  Second :: nat
  Nanosecond :: nat
  ZoneOffset :: int

definition zero_Time :: Time where
  "zero_Time = \<lparr>Year = 1, Month = 1, Day = 1, Hour = 0, Minute = 0, Second = 0,
                 Nanosecond = 0, ZoneOffset = 0\<rparr>"

text \<open>
  \<^verbatim>\<open>formatNano(b, nanosec, n, trim)\<close>: the nanoseconds as nine digits, of which the
  first \<^verbatim>\<open>n\<close> are kept; with \<^verbatim>\<open>trim\<close> trailing zeros go, and nothing at all is
  appended when no digit is left.
\<close>

definition nano_buf :: "nat \<Rightarrow> string" where
  "nano_buf u = map (\<lambda>i. digit_char (u div 10 ^ (8 - i))) [0..<9]"

fun trim_zeros :: "nat \<Rightarrow> string \<Rightarrow> nat" where
  "trim_zeros 0 buf = 0"
| "trim_zeros (Suc n) buf = (if buf ! n = CHR ''0'' then trim_zeros n buf else Suc n)"

definition formatNano :: "nat \<Rightarrow> nat \<Rightarrow> bool \<Rightarrow> string" where
  "formatNano nanosec n trim =
     (let buf = nano_buf nanosec;
          n1 = (if n > 9 then 9 else n);
          n2 = (if trim then trim_zeros n1 buf else n1)
      in if trim \<and> n2 = 0 then [] else CHR ''.'' # take n2 buf)"

text \<open>
  \<^verbatim>\<open>t.Format("2006-01-02-15_04_05.9")\<close>, the layout of the store key: year, month,
  day, hour, minute, second, and at most one digit of the fraction of the second. The
  layout names no zone.
\<close>

definition Format_key :: "Time \<Rightarrow> string" where
  "Format_key t =
     appendInt (Year t) 4 @ ''-'' @ appendInt (int (Month t)) 2 @ ''-'' @
     appendInt (int (Day t)) 2 @ ''-'' @ appendInt (int (Hour t)) 2 @ ''_'' @
     appendInt (int (Minute t)) 2 @ ''_'' @ appendInt (int (Second t)) 2 @
     formatNano (Nanosecond t) 1 True"

text \<open>
  \<^verbatim>\<open>t.Format(time.RFC3339)\<close>, layout \<^verbatim>\<open>2006-01-02T15:04:05Z07:00\<close>. The zone is
  \<^verbatim>\<open>Z\<close> for offset 0 and otherwise sign, hours and minutes; Go's integer division
  truncates towards zero, so the offset is divided after its sign is taken off.
\<close>

definition zone_RFC3339 :: "int \<Rightarrow> string" where
  "zone_RFC3339 offset =
     (if offset = 0 then ''Z''
      else let zone = (if offset < 0 then - ((- offset) div 60) else offset div 60);
               sgn = (if zone < 0 then ''-'' else ''+'');
               z = \<bar>zone\<bar>
           in sgn @ appendInt (z div 60) 2 @ '':'' @ appendInt (z mod 60) 2)"

definition Format_RFC3339 :: "Time \<Rightarrow> string" where
  "Format_RFC3339 t =
     appendInt (Year t) 4 @ ''-'' @ appendInt (int (Month t)) 2 @ ''-'' @
     appendInt (int (Day t)) 2 @ ''T'' @ appendInt (int (Hour t)) 2 @ '':'' @
     appendInt (int (Minute t)) 2 @ '':'' @ appendInt (int (Second t)) 2 @
     zone_RFC3339 (ZoneOffset t)"

subsection \<open>Lexical paths: \<^verbatim>\<open>path.Clean\<close> and \<^verbatim>\<open>path.Join\<close>\<close>

text \<open>
  \<^verbatim>\<open>path.Clean\<close> reads the path byte by byte and writes into a buffer \<^verbatim>\<open>out\<close>
  of \<^verbatim>\<open>out.w\<close> bytes; \<^verbatim>\<open>dotdot\<close> is the index where backtracking must stop.
  The buffer is the list of the bytes written so far. Backtracking on \<^verbatim>\<open>..\<close> is
  \<^verbatim>\<open>out.w--; for out.w > dotdot && out.index(out.w) != '/' { out.w-- }\<close>: the byte
  looked at is the one just dropped.
\<close>

function backtrack_loop :: "string \<Rightarrow> char \<Rightarrow> nat \<Rightarrow> string" where
  "backtrack_loop out c dotdot =
     (if length out > dotdot \<and> c \<noteq> CHR ''/''
      then backtrack_loop (butlast out) (last out) dotdot else out)"
  by pat_completeness auto
termination
  by (relation "measure (\<lambda>(out, c, dotdot). length out)") auto

declare backtrack_loop.simps [simp del]

definition backtrack :: "string \<Rightarrow> nat \<Rightarrow> string" where
  "backtrack out dotdot = backtrack_loop (butlast out) (last out) dotdot"

definition notSlash :: "char \<Rightarrow> bool" where
  "notSlash c = (c \<noteq> CHR ''/'')"

text \<open>
  The main loop of \<^verbatim>\<open>Clean\<close>, over the bytes not yet read. The four cases are the
  source's, in its order: an empty element, a \<^verbatim>\<open>.\<close> element, a \<^verbatim>\<open>..\<close> element,
  a real element (copied up to the next slash).
\<close>

function clean_loop :: "bool \<Rightarrow> string \<Rightarrow> string \<Rightarrow> nat \<Rightarrow> string" where
  "clean_loop rooted [] out dotdot = out"
| "clean_loop rooted (c # cs) out dotdot =
     (if c = CHR ''/'' then clean_loop rooted cs out dotdot
      else if c = CHR ''.'' \<and> (cs = [] \<or> hd cs = CHR ''/'') then clean_loop rooted cs out dotdot
      else if c = CHR ''.'' \<and> hd cs = CHR ''.'' \<and> (tl cs = [] \<or> hd (tl cs) = CHR ''/'') then
        (if length out > dotdot then clean_loop rooted (tl cs) (backtrack out dotdot) dotdot
         else if rooted then clean_loop rooted (tl cs) out dotdot
         else clean_loop rooted (tl cs)
                ((if length out > 0 then out @ ''/'' else out) @ ''..'')
                (length ((if length out > 0 then out @ ''/'' else out) @ ''..'')))
      else clean_loop rooted (dropWhile notSlash cs)
             ((if (rooted \<and> length out \<noteq> 1) \<or> (\<not> rooted \<and> length out \<noteq> 0)
               then out @ ''/'' else out) @ c # takeWhile notSlash cs)
             dotdot)"
  by pat_completeness auto
termination
  by (relation "measure (\<lambda>(rooted, p, out, dotdot). length p)")
     (auto simp: less_Suc_eq_le length_dropWhile_le intro: le_trans [OF length_dropWhile_le])

declare clean_loop.simps [simp del]

definition Clean :: "string \<Rightarrow> string" where
  "Clean p =
     (if p = [] then ''.''
      else let rooted = (hd p = CHR ''/'');
               out = (if rooted then clean_loop True (tl p) ''/'' 1
                      else clean_loop False p [] 0)
           in if out = [] then ''.'' else out)"

text \<open>
  \<^verbatim>\<open>path.Join\<close>: empty elements before the first non-empty one are dropped, the
  others are joined with slashes, and the result is cleaned; all elements empty gives
  the empty string. On Unix \<^verbatim>\<open>filepath.Join\<close> computes the same.
\<close>

fun join_buf :: "string \<Rightarrow> string list \<Rightarrow> string" where
  "join_buf buf [] = buf"
| "join_buf buf (e # es) =
     (if length buf > 0 \<or> e \<noteq> []
      then join_buf ((if length buf > 0 then buf @ ''/'' else buf) @ e) es
      else join_buf buf es)"

definition Join :: "string list \<Rightarrow> string" where
  "Join elems = (if sum_list (map length elems) = 0 then [] else Clean (join_buf [] elems))"

subsection \<open>HTTP header maps\<close>

text \<open>
  An \<^verbatim>\<open>http.Header\<close> maps a header name to its list of values. It is kept as an
  association list with one entry per name. \<^verbatim>\<open>Header.Set\<close> stores the value under
  \<^verbatim>\<open>textproto.CanonicalMIMEHeaderKey\<close> of the name, replacing what was there: a
  name made of token bytes gets an upper-case letter first and after every dash and
  lower-case letters elsewhere, any other name is left as it is.
\<close>

type_synonym Header = "(string \<times> string list) list"

definition lower_letters :: string where
  "lower_letters = ''abcdefghijklmnopqrstuvwxyz''"

definition upper_letters :: string where
  "upper_letters = ''ABCDEFGHIJKLMNOPQRSTUVWXYZ''"

definition validHeaderFieldByte :: "char \<Rightarrow> bool" where
  "validHeaderFieldByte c =
     (c \<in> set (''!#$%&*+-.^_|~'' @ [CHR 0x27, CHR 0x60]) \<or> isDigit c \<or>
      c \<in> set lower_letters \<or> c \<in> set upper_letters)"

definition toUpperByte :: "char \<Rightarrow> char" where
  "toUpperByte c = (case map_of (zip lower_letters upper_letters) c of Some u \<Rightarrow> u | None \<Rightarrow> c)"

definition toLowerByte :: "char \<Rightarrow> char" where
  "toLowerByte c = (case map_of (zip upper_letters lower_letters) c of Some l \<Rightarrow> l | None \<Rightarrow> c)"

fun canonical_loop :: "bool \<Rightarrow> string \<Rightarrow> string" where
  "canonical_loop upper [] = []"
| "canonical_loop upper (c # cs) =
     (let c' = (if upper \<and> c \<in> set lower_letters then toUpperByte c
                else if \<not> upper \<and> c \<in> set upper_letters then toLowerByte c
                else c)
      in c' # canonical_loop (c' = CHR ''-'') cs)"

definition CanonicalMIMEHeaderKey :: "string \<Rightarrow> string" where
  "CanonicalMIMEHeaderKey s = (if list_all validHeaderFieldByte s then canonical_loop True s else s)"

fun alist_set :: "'k \<Rightarrow> 'v \<Rightarrow> ('k \<times> 'v) list \<Rightarrow> ('k \<times> 'v) list" where
  "alist_set k v [] = [(k, v)]"
| "alist_set k v ((k', v') # r) = (if k = k' then (k, v) # r else (k', v') # alist_set k v r)"

definition Header_Set :: "Header \<Rightarrow> string \<Rightarrow> string \<Rightarrow> Header" where
  "Header_Set h k v = alist_set (CanonicalMIMEHeaderKey k) [v] h"

section \<open>The coordinator\<close>

subsection \<open>Protocol types\<close>

text \<open>
  \<^verbatim>\<open>FileMetadata\<close> and \<^verbatim>\<open>UploadDestination\<close> are declared alike in the coordinator
  and in the client and travel as JSON between them; \<^verbatim>\<open>Bytes\<close> is an \<^verbatim>\<open>int64\<close>.
  A \<^verbatim>\<open>nil\<close> header map is the empty list.
\<close>

record FileMetadata =
  ID :: string
  Name :: string
  Mtime :: Time
  Bytes :: "64 word"
  ContentType :: string
  TestUpload :: bool

definition StatusOK :: string where "StatusOK = ''ok''"
definition StatusSkipUpload :: string where "StatusSkipUpload = ''skip''"
definition StatusErr :: string where "StatusErr = ''error''"

record UploadDestination =
  Status :: string
  Error :: string
  URL :: string
  Method :: string
  Headers :: Header

text \<open>The zero value of the struct, from which the composite literals start.\<close>

definition UploadDestination0 :: UploadDestination where
  "UploadDestination0 = \<lparr>Status = [], Error = [], URL = [], Method = [], Headers = []\<rparr>"

subsection \<open>The server, its backend and the HTTP exchange\<close>

record server =
  bucket :: string
  pathPrefix :: string
  bcryptPass :: string

record PutObjectInput =
  PutBucket :: string
  PutKey :: string
  PutContentLength :: "64 word"
  PutContentType :: string
  PutMetadata :: "(string \<times> string) list"

text \<open>
  The store is reached through the S3 client. \<^verbatim>\<open>HeadObject\<close> answers with an error
  or with none (\<^verbatim>\<open>None\<close> is Go's \<^verbatim>\<open>err == nil\<close>); building and presigning the
  put request gives a URL or an error. Both are the environment's to decide; the
  handler only reads their results.
\<close>

record s3api =
  HeadObject :: "string \<Rightarrow> string \<Rightarrow> string option"
  Presign :: "PutObjectInput \<Rightarrow> nat \<Rightarrow> string + string"

text \<open>
  Of a request the handlers read the method, \<^verbatim>\<open>r.BasicAuth()\<close> (the user name and
  password of a well-formed basic authorization header, if there is one) and the body,
  kept as what \<^verbatim>\<open>json.NewDecoder(r.Body).Decode(&meta)\<close> makes of it.
\<close>

record Request =
  ReqMethod :: string
  ReqBasicAuth :: "(string \<times> string) option"
  ReqBody :: "string + FileMetadata"

datatype resp_body = NoBody | TextBody string | JsonBody UploadDestination

text \<open>
  The \<^verbatim>\<open>http.ResponseWriter\<close>: the header map, the status code once
  \<^verbatim>\<open>WriteHeader\<close> has been called, and what was written. A handler that returns
  without writing answers 200 with an empty body.
\<close>

record ResponseWriter =
  WHeader :: Header
  WCode :: "nat option"
  WBody :: resp_body

definition ResponseWriter0 :: ResponseWriter where
  "ResponseWriter0 = \<lparr>WHeader = [], WCode = None, WBody = NoBody\<rparr>"

definition WriteHeader :: "ResponseWriter \<Rightarrow> nat \<Rightarrow> ResponseWriter" where
  "WriteHeader w c = (if WCode w = None then w\<lparr>WCode := Some c\<rparr> else w)"

definition StatusCode_of :: "ResponseWriter \<Rightarrow> nat" where
  "StatusCode_of w = (case WCode w of None \<Rightarrow> 200 | Some c \<Rightarrow> c)"

definition http_Error :: "ResponseWriter \<Rightarrow> string \<Rightarrow> nat \<Rightarrow> ResponseWriter" where
  "http_Error w msg c =
     (let w1 = w\<lparr>WHeader := Header_Set (WHeader w) ''Content-Type'' ''text/plain; charset=utf-8''\<rparr>;
          w2 = w1\<lparr>WHeader := Header_Set (WHeader w1) ''X-Content-Type-Options'' ''nosniff''\<rparr>
      in (WriteHeader w2 c)\<lparr>WBody := TextBody (msg @ [CHR 0x0A])\<rparr>)"

definition Encode :: "ResponseWriter \<Rightarrow> UploadDestination \<Rightarrow> ResponseWriter" where
  "Encode w d = (WriteHeader w 200)\<lparr>WBody := JsonBody d\<rparr>"

text \<open>What a handler does besides answering, in the order it does it.\<close>

datatype srv_event =
  DecodeBody
  | HeadObjectCall string string
  | PresignCall PutObjectInput nat

type_synonym Handler = "ResponseWriter \<Rightarrow> Request \<Rightarrow> ResponseWriter \<times> srv_event list"

subsection \<open>\<^verbatim>\<open>basicAuthMiddleware\<close>\<close>

text \<open>
  \<^verbatim>\<open>main\<close> wraps its mux, whose one route \<^verbatim>\<open>/upload_request\<close> leads to
  \<^verbatim>\<open>handleUploadRequest\<close>, into this middleware, and that into a logging
  middleware which leaves the response as it is.
  \<^verbatim>\<open>bcrypt.CompareHashAndPassword\<close> is a parameter: it returns an error unless the
  password hashes to the stored hash. The user name of the pair is read into the blank
  identifier and takes no part.
\<close>

definition basicAuthMiddleware ::
  "server \<Rightarrow> (string \<Rightarrow> string \<Rightarrow> string option) \<Rightarrow> Handler \<Rightarrow> Handler" where
  "basicAuthMiddleware s CompareHashAndPassword next w r =
     (let w1 = w\<lparr>WHeader := Header_Set (WHeader w) ''WWW-Authenticate''
                               (''Basic realm='' @ [CHR 0x22] @ ''Restricted'' @ [CHR 0x22])\<rparr>
      in case ReqBasicAuth r of
           None \<Rightarrow> (http_Error w1 ''Not authorized'' 401, [])
         | Some (username, password) \<Rightarrow>
             (case CompareHashAndPassword (bcryptPass s) password of
                Some err \<Rightarrow> (http_Error w1 ''Not authorized'' 401, [])
              | None \<Rightarrow> next w1 r))"

subsection \<open>\<^verbatim>\<open>handleUploadRequest\<close>\<close>

text \<open>
  The handler's \<^verbatim>\<open>s3Path\<close>, the store key of a metadata, and its
  \<^verbatim>\<open>putObjInput\<close>, with the \<^verbatim>\<open>test-upload\<close> entry added when the flag is set.
\<close>

definition s3Path_of :: "server \<Rightarrow> FileMetadata \<Rightarrow> string" where
  "s3Path_of s meta =
     (let ts = Format_key (Mtime meta)
      in Join [pathPrefix s, ts @ ''-'' @ ID meta @ ''-'' @ Name meta])"

definition putObjInput_of :: "server \<Rightarrow> FileMetadata \<Rightarrow> PutObjectInput" where
  "putObjInput_of s meta =
     (let input = \<lparr>PutBucket = bucket s, PutKey = s3Path_of s meta,
                    PutContentLength = Bytes meta, PutContentType = ContentType meta,
                    PutMetadata = [(''filename'', Name meta),
                                   (''mtime'', Format_RFC3339 (Mtime meta))]\<rparr>
      in if TestUpload meta
         then input\<lparr>PutMetadata := alist_set ''test-upload'' ''true'' (PutMetadata input)\<rparr>
         else input)"

text \<open>
  The loop \<^verbatim>\<open>for k, v := range putObjInput.Metadata\<close> sets one header per entry. Go
  visits a map in no fixed order; the entries have distinct names, so the order
  of the visits does not change the header map, only the order of this list
  (lemma \<open>meta_headers_any_order\<close> below).
\<close>

fun set_meta_headers :: "Header \<Rightarrow> (string \<times> string) list \<Rightarrow> Header" where
  "set_meta_headers h [] = h"
| "set_meta_headers h ((k, v) # kvs) = set_meta_headers (Header_Set h (''x-amz-meta-'' @ k) v) kvs"

definition ok_headers :: "FileMetadata \<Rightarrow> PutObjectInput \<Rightarrow> Header" where
  "ok_headers meta input =
     (let h0 = [];
          h1 = Header_Set h0 ''content-length'' (Itoa (sint (Bytes meta)));
          h2 = Header_Set h1 ''content-type'' (ContentType meta)
      in set_meta_headers h2 (PutMetadata input))"

definition handleUploadRequest :: "server \<Rightarrow> s3api \<Rightarrow> Handler" where
  "handleUploadRequest s api w r =
     (if ReqMethod r \<noteq> ''POST'' then (http_Error w ''Bad Method'' 405, [])
      else case ReqBody r of
        Inl err \<Rightarrow>
          (Encode (WriteHeader w 400) (UploadDestination0\<lparr>Status := StatusErr, Error := ''bad request''\<rparr>),
           [DecodeBody])
      | Inr meta \<Rightarrow>
          (let s3Path = s3Path_of s meta
           in case HeadObject api (bucket s) s3Path of
                None \<Rightarrow>
                  (Encode (WriteHeader w 409) (UploadDestination0\<lparr>Status := StatusSkipUpload\<rparr>),
                   [DecodeBody, HeadObjectCall (bucket s) s3Path])
              | Some err \<Rightarrow>
                  (let putObjInput = putObjInput_of s meta
                   in case Presign api putObjInput 60 of
                        Inl err \<Rightarrow>
                          (w, [DecodeBody, HeadObjectCall (bucket s) s3Path,
                               PresignCall putObjInput 60])
                      | Inr url \<Rightarrow>
                          (Encode w (UploadDestination0\<lparr>Status := StatusOK, URL := url,
                                       Method := ''PUT'', Headers := ok_headers meta putObjInput\<rparr>),
                           [DecodeBody, HeadObjectCall (bucket s) s3Path,
                            PresignCall putObjInput 60]))))"

section \<open>The batch upload client\<close>

subsection \<open>Configuration and environment\<close>

text \<open>The command-line flags of \<^verbatim>\<open>photo_backup_batch.go\<close>.\<close>

record config =
  url :: string
  username :: string
  password :: string
  pendingDir :: string
  doneDir :: string

text \<open>
  What the EXIF library does for a file, as far as \<^verbatim>\<open>readExifInfo\<close> sees it: the
  first of its calls that fails (\<^verbatim>\<open>SearchAndExtractExifWithReader\<close>,
  \<^verbatim>\<open>NewIfdMappingWithStandard\<close>, \<^verbatim>\<open>Collect\<close>), or else the tags that
  \<^verbatim>\<open>EnumerateTagsRecursively\<close> visits, each with its name and its text value, and
  the error the enumeration returns in the end, if any.
\<close>

datatype exif_lib =
  SearchErr string
  | MappingErr string
  | CollectErr string
  | Tags "(string \<times> string) list" "string option"

text \<open>
  What the operating system gives for one entry of the pending directory: its name,
  whether \<^verbatim>\<open>os.Open\<close> and \<^verbatim>\<open>io.Copy\<close> into the hash fail, the bytes of the
  file, the result of \<^verbatim>\<open>f.Stat()\<close> (size and modification time), what the EXIF
  library finds in it, and whether \<^verbatim>\<open>os.Rename\<close> into the done directory fails.
\<close>

record dir_entry =
  f_name :: string
  f_open_err :: "string option"
  f_contents :: "8 word list"
  f_copy_err :: "string option"
  f_stat :: "string + (64 word \<times> Time)"
  f_exif :: exif_lib
  f_rename_err :: "string option"

text \<open>
  The coordinator's answer as the client reads it: the status code, and the body as
  \<^verbatim>\<open>json.NewDecoder(resp.Body).Decode(&dest)\<close> decodes it. The store's answer to the
  upload: the status code and the body text.
\<close>

record coord_reply =
  StatusCode :: nat
  RespBody :: "string + UploadDestination"

text \<open>
  The rest of the environment: the directory listing and \<^verbatim>\<open>os.MkdirAll\<close>, the
  SHA-256 digest in hexadecimal, \<^verbatim>\<open>http.DetectContentType\<close>, \<^verbatim>\<open>time.Parse\<close>,
  \<^verbatim>\<open>http.NewRequest\<close> (which refuses a bad method or URL), and
  \<^verbatim>\<open>http.DefaultClient.Do\<close> on the two requests the client makes: the POST of the
  metadata with basic authentication, and the upload.
\<close>

record world =
  ReadDir :: "string \<Rightarrow> string + dir_entry list"
  MkdirAll :: "string \<Rightarrow> string option"
  sha256_hex :: "8 word list \<Rightarrow> string"
  DetectContentType :: "8 word list \<Rightarrow> string"
  time_Parse :: "string \<Rightarrow> string \<Rightarrow> string + Time"
  NewRequest_err :: "string \<Rightarrow> string \<Rightarrow> string option"
  coordinator :: "string \<Rightarrow> string \<times> string \<Rightarrow> FileMetadata \<Rightarrow> string + coord_reply"
  store_Do :: "string \<Rightarrow> string \<Rightarrow> Header \<Rightarrow> 64 word \<Rightarrow> 8 word list \<Rightarrow> string + nat \<times> string"

text \<open>The requests and the rename the client issues, in order.\<close>

datatype client_event =
  PostMetadata string "string \<times> string" FileMetadata
  | PutFile string string Header "64 word" "8 word list"
  | Rename string string

subsection \<open>\<^verbatim>\<open>strings.SplitN\<close> and \<^verbatim>\<open>filepath.Base\<close>\<close>

text \<open>
  \<^verbatim>\<open>strings.SplitN(s, sep, n)\<close> for a one-byte separator and \<^verbatim>\<open>n \<ge> 0\<close>: at most
  \<^verbatim>\<open>n\<close> pieces, the last one the unsplit rest.
\<close>

fun SplitN :: "string \<Rightarrow> char \<Rightarrow> nat \<Rightarrow> string list" where
  "SplitN s sep 0 = []"
| "SplitN s sep (Suc n) =
     (if n = 0 \<or> sep \<notin> set s then [s]
      else takeWhile (\<lambda>x. x \<noteq> sep) s # SplitN (tl (dropWhile (\<lambda>x. x \<noteq> sep) s)) sep n)"

text \<open>
  \<^verbatim>\<open>filepath.Base\<close> on Unix: trailing slashes go, then everything up to the last
  slash; the empty path gives a dot and a path of slashes only gives a slash.
\<close>

definition Base :: "string \<Rightarrow> string" where
  "Base p =
     (if p = [] then ''.''
      else let p1 = rev (dropWhile (\<lambda>x. x = CHR ''/'') (rev p));
               p2 = rev (takeWhile notSlash (rev p1))
           in if p2 = [] then ''/'' else p2)"

subsection \<open>\<^verbatim>\<open>readExifInfo\<close>\<close>

record ExifInfo =
  ExifTime :: Time
  Make :: string
  Model :: string

definition ExifInfo0 :: ExifInfo where
  "ExifInfo0 = \<lparr>ExifTime = zero_Time, Make = [], Model = []\<rparr>"

text \<open>
  The callback given to \<^verbatim>\<open>EnumerateTagsRecursively\<close>. The three tags it reads are
  text tags, and their values are strings here. \<^verbatim>\<open>time.Parse\<close> returns the zero
  time with its error, and the callback drops the error:
  \<^verbatim>\<open>meta.Time, _ = time.Parse("2006:01:02 15:04:05", value.(string))\<close>.
\<close>

definition exif_cb :: "world \<Rightarrow> ExifInfo \<Rightarrow> string \<times> string \<Rightarrow> ExifInfo" where
  "exif_cb w meta entry =
     (let tagName = fst entry; v = snd entry
      in if tagName = ''Make'' then meta\<lparr>Make := v\<rparr>
         else if tagName = ''Model'' then meta\<lparr>Model := v\<rparr>
         else if tagName = ''DateTime'' then
           meta\<lparr>ExifTime := (case time_Parse w ''2006:01:02 15:04:05'' v of
                                Inl err \<Rightarrow> zero_Time | Inr t \<Rightarrow> t)\<rparr>
         else meta)"

definition readExifInfo :: "world \<Rightarrow> exif_lib \<Rightarrow> string + ExifInfo" where
  "readExifInfo w lib =
     (case lib of
        SearchErr err \<Rightarrow> Inl (''parse jpeg exif search err '' @ err)
      | MappingErr err \<Rightarrow> Inl (''parse jpeg ifd mapping err '' @ err)
      | CollectErr err \<Rightarrow> Inl (''parse jpeg collect err '' @ err)
      | Tags entries enum_err \<Rightarrow>
          (case enum_err of
             Some err \<Rightarrow> Inl (''enumeratetagsrecursively err '' @ err)
           | None \<Rightarrow> Inr (foldl (exif_cb w) ExifInfo0 entries)))"

subsection \<open>\<^verbatim>\<open>requestUploadURL\<close> and \<^verbatim>\<open>uploadFile\<close>\<close>

text \<open>
  \<^verbatim>\<open>json.Marshal\<close> of the metadata fails only in \<^verbatim>\<open>Time.MarshalJSON\<close>, which in
  the Go release of \<^verbatim>\<open>go.mod\<close> (1.16) refuses a year outside 0 to 9999;
  \<^verbatim>\<open>json.Marshal\<close> wraps the error.
\<close>

definition Marshal_err :: "FileMetadata \<Rightarrow> string option" where
  "Marshal_err meta =
     (if Year (Mtime meta) < 0 \<or> 9999 < Year (Mtime meta)
      then Some (''json: error calling MarshalJSON for type time.Time: '' @
                 ''Time.MarshalJSON: year outside of range [0,9999]'')
      else None)"

definition requestUploadURL ::
  "config \<Rightarrow> world \<Rightarrow> string \<Rightarrow> string \<Rightarrow> string \<Rightarrow> Time \<Rightarrow> 64 word
     \<Rightarrow> (string + UploadDestination) \<times> client_event list" where
  "requestUploadURL cfg w id' name contentType mtime size' =
     (let meta = \<lparr>ID = id', Name = name, Mtime = mtime, Bytes = size',
                   ContentType = contentType, TestUpload = True\<rparr>
      in case Marshal_err meta of
           Some err \<Rightarrow> (Inl err, [])
         | None \<Rightarrow>
             (case NewRequest_err w ''POST'' (url cfg) of
                Some err \<Rightarrow> (Inl err, [])
              | None \<Rightarrow>
                  (let ev = PostMetadata (url cfg) (username cfg, password cfg) meta
                   in case coordinator w (url cfg) (username cfg, password cfg) meta of
                        Inl err \<Rightarrow> (Inl err, [ev])
                      | Inr resp \<Rightarrow>
                          if StatusCode resp \<noteq> 200 \<and> StatusCode resp \<noteq> 409
                          then (Inl (''non-200 status code: '' @ Itoa (int (StatusCode resp))), [ev])
                          else (case RespBody resp of
                                  Inl err \<Rightarrow> (Inl err, [ev])
                                | Inr dest \<Rightarrow> (Inr dest, [ev])))))"

definition uploadFile ::
  "world \<Rightarrow> 8 word list \<Rightarrow> 64 word \<Rightarrow> UploadDestination \<Rightarrow> string option \<times> client_event list" where
  "uploadFile w r size' dest0 =
     (let dest = (if Method dest0 = [] then dest0\<lparr>Method := ''PUT''\<rparr> else dest0)
      in case NewRequest_err w (Method dest) (URL dest) of
           Some err \<Rightarrow> (Some err, [])
         | None \<Rightarrow>
             (let ev = PutFile (Method dest) (URL dest) (Headers dest) size' r
              in case store_Do w (Method dest) (URL dest) (Headers dest) size' r of
                   Inl err \<Rightarrow> (Some err, [ev])
                 | Inr (code, body) \<Rightarrow>
                     if code \<noteq> 200
                     then (Some (''uploadFile: non-200 status code: '' @ Itoa (int code) @
                                 [CHR 0x0A] @ body @ [CHR 0x0A]), [ev])
                     else (None, [ev])))"

subsection \<open>\<^verbatim>\<open>run\<close>\<close>

text \<open>
  The 512-byte buffer is allocated zeroed and \<^verbatim>\<open>io.ReadFull\<close> fills as much of it as
  the file has; its error is not looked at.
\<close>

definition sniff_header :: "8 word list \<Rightarrow> 8 word list" where
  "sniff_header bs = take 512 bs @ replicate (512 - length bs) 0"

text \<open>The body of the loop: the function literal called once per directory entry.\<close>

definition process_file :: "config \<Rightarrow> world \<Rightarrow> dir_entry \<Rightarrow> string option \<times> client_event list" where
  "process_file cfg w finfo =
     (let srcPath = Join [pendingDir cfg, f_name finfo]
      in case f_open_err finfo of
           Some err \<Rightarrow> (Some err, [])
         | None \<Rightarrow>
         (case f_copy_err finfo of
           Some err \<Rightarrow> (Some err, [])
         | None \<Rightarrow>
         (let id' = sha256_hex w (f_contents finfo)
          in case f_stat finfo of
               Inl err \<Rightarrow> (Some err, [])
             | Inr (size', mtime0) \<Rightarrow>
             (let name = Base (f_name finfo);
                  header = sniff_header (f_contents finfo);
                  contentType = DetectContentType w header;
                  contentParts = SplitN contentType (CHR ''/'') 2
              in if contentParts ! 0 \<noteq> ''image'' \<and> contentParts ! 0 \<noteq> ''audio'' \<and>
                    contentParts ! 0 \<noteq> ''video''
                 then (None, [])
                 else
                 (let mtime = (if contentParts ! 0 = ''image''
                               then (case readExifInfo w (f_exif finfo) of
                                       Inl err \<Rightarrow> mtime0
                                     | Inr exif \<Rightarrow> ExifTime exif)
                               else mtime0)
                  in case requestUploadURL cfg w id' name contentType mtime size' of
                       (Inl err, evs) \<Rightarrow> (Some err, evs)
                     | (Inr dest, evs) \<Rightarrow>
                         if Status dest = StatusSkipUpload
                         then (f_rename_err finfo,
                               evs @ [Rename srcPath (Join [doneDir cfg, f_name finfo])])
                         else (case uploadFile w (f_contents finfo) size' dest of
                                 (Some err, evs2) \<Rightarrow> (Some err, evs @ evs2)
                               | (None, evs2) \<Rightarrow>
                                   (f_rename_err finfo,
                                    evs @ evs2 @
                                    [Rename srcPath (Join [doneDir cfg, f_name finfo])])))))))"

text \<open>The loop over the listing stops at the first error.\<close>

fun run_loop :: "config \<Rightarrow> world \<Rightarrow> dir_entry list \<Rightarrow> string option \<times> client_event list" where
  "run_loop cfg w [] = (None, [])"
| "run_loop cfg w (finfo # files) =
     (case process_file cfg w finfo of
        (Some err, evs) \<Rightarrow> (Some err, evs)
      | (None, evs) \<Rightarrow> (case run_loop cfg w files of (res, evs') \<Rightarrow> (res, evs @ evs')))"

definition run :: "config \<Rightarrow> world \<Rightarrow> string option \<times> client_event list" where
  "run cfg w =
     (if url cfg = [] then (Some ''-url is required'', [])
      else if pendingDir cfg = [] then (Some ''-pending_dir is required'', [])
      else case ReadDir w (pendingDir cfg) of
             Inl err \<Rightarrow> (Some err, [])
           | Inr files \<Rightarrow>
               (case MkdirAll w (doneDir cfg) of
                  Some err \<Rightarrow> (Some err, [])
                | None \<Rightarrow> run_loop cfg w files))"

section \<open>Client and coordinator together\<close>

text \<open>
  The store as the coordinator sees it: the set of bucket and key pairs that hold an
  object, and the error, if any, with which the backend fails the existence check
  (a request that does not get through, a refusal, a server error). Without such an
  error \<^verbatim>\<open>HeadObject\<close> answers from the set; with it, \<^verbatim>\<open>HeadObject\<close> returns the
  error whether the object is there or not. A completed upload through a capability
  puts its key into the set.
\<close>

type_synonym s3_store = "(string \<times> string) set"

definition s3_of_store ::
  "string option \<Rightarrow> s3_store \<Rightarrow> (PutObjectInput \<Rightarrow> nat \<Rightarrow> string + string) \<Rightarrow> s3api" where
  "s3_of_store fault st presign =
     \<lparr>HeadObject = (\<lambda>b k. case fault of
                                Some err \<Rightarrow> Some err
                              | None \<Rightarrow> if (b, k) \<in> st then None else Some ''NotFound''),
      Presign = presign\<rparr>"

definition upload_completed :: "s3_store \<Rightarrow> string \<Rightarrow> string \<Rightarrow> s3_store" where
  "upload_completed st b k = insert (b, k) st"

text \<open>
  The client's reading of a response body: JSON decodes to the value that was
  encoded, an empty body and the plain-text bodies of \<^verbatim>\<open>http.Error\<close> do not decode.
\<close>

definition decode_body :: "resp_body \<Rightarrow> string + UploadDestination" where
  "decode_body b =
     (case b of
        NoBody \<Rightarrow> Inl ''EOF''
      | TextBody t \<Rightarrow> Inl ''invalid character''
      | JsonBody d \<Rightarrow> Inr d)"

text \<open>
  The coordinator of this repository as the client's environment: the POST carries the
  credentials and the metadata, the handler chain of \<^verbatim>\<open>main\<close> answers, and the
  transport itself does not fail. The URL is not looked at: every request is taken to
  reach the route \<^verbatim>\<open>/upload_request\<close>, where \<^verbatim>\<open>main\<close>'s mux would answer 404 for
  another path, so this environment lets through at least the uploads that the real
  one does.
\<close>

definition coordinator_service ::
  "server \<Rightarrow> s3api \<Rightarrow> (string \<Rightarrow> string \<Rightarrow> string option)
     \<Rightarrow> string \<Rightarrow> string \<times> string \<Rightarrow> FileMetadata \<Rightarrow> string + coord_reply" where
  "coordinator_service s api cmp u creds meta =
     (case basicAuthMiddleware s cmp (handleUploadRequest s api) ResponseWriter0
             \<lparr>ReqMethod = ''POST'', ReqBasicAuth = Some creds, ReqBody = Inr meta\<rparr> of
        (w, evs) \<Rightarrow> Inr \<lparr>StatusCode = StatusCode_of w, RespBody = decode_body (WBody w)\<rparr>)"

section \<open>Example values\<close>

definition ex_server :: server where
  "ex_server = \<lparr>bucket = ''photo-bucket'', pathPrefix = ''photos'', bcryptPass = ''$2a$10$hash''\<rparr>"

definition ex_time :: Time where
  "ex_time = \<lparr>Year = 2021, Month = 3, Day = 4, Hour = 5, Minute = 6, Second = 7,
               Nanosecond = 10000000, ZoneOffset = 0\<rparr>"

definition ex_meta :: FileMetadata where
  "ex_meta = \<lparr>ID = ''0a1b'', Name = ''a.jpg'', Mtime = ex_time, Bytes = 500000,
               ContentType = ''image/jpeg'', TestUpload = True\<rparr>"

definition ex_request :: Request where
  "ex_request = \<lparr>ReqMethod = ''POST'', ReqBasicAuth = Some (''alice'', ''secret''),
                  ReqBody = Inr ex_meta\<rparr>"

definition ex_compare :: "string \<Rightarrow> string \<Rightarrow> string option" where
  "ex_compare h p = (if h = ''$2a$10$hash'' \<and> p = ''secret'' then None
                     else Some ''hashedPassword is not the hash of the given password'')"

definition ex_presign :: "PutObjectInput \<Rightarrow> nat \<Rightarrow> string + string" where
  "ex_presign input expire = Inr (''https://s3.example/'' @ PutKey input @ ''?X-Amz-Signature=1'')"

definition ex_config :: config where
  "ex_config = \<lparr>url = ''https://coordinator.example/upload_request'', username = ''alice'',
                 password = ''secret'', pendingDir = ''pending'', doneDir = ''done''\<rparr>"

definition ex_entry :: dir_entry where
  "ex_entry = \<lparr>f_name = ''a.jpg'', f_open_err = None, f_contents = [0xFF, 0xD8, 0xFF],
                f_copy_err = None, f_stat = Inr (3, ex_time),
                f_exif = Tags [(''Make'', ''Canon'')] None, f_rename_err = None\<rparr>"

text \<open>
  An environment for the examples: every file is sniffed as the type given, the digest
  is a fixed string, \<^verbatim>\<open>time.Parse\<close> reads one timestamp and rejects the rest, and
  the coordinator and the store are the functions given.
\<close>

definition ex_world ::
  "string \<Rightarrow> (string \<Rightarrow> string \<times> string \<Rightarrow> FileMetadata \<Rightarrow> string + coord_reply) \<Rightarrow> world" where
  "ex_world ctype coord =
     \<lparr>ReadDir = (\<lambda>d. Inr [ex_entry]),
      MkdirAll = (\<lambda>d. None),
      sha256_hex = (\<lambda>bs. ''0a1b''),
      DetectContentType = (\<lambda>bs. ctype),
      time_Parse = (\<lambda>layout v. if v = ''2020:01:01 00:00:00''
                                 then Inr (ex_time\<lparr>Year := 2020, Month := 1, Day := 1, Hour := 0,
                                                    Minute := 0, Second := 0, Nanosecond := 0\<rparr>)
                                 else Inl ''parsing time: month out of range''),
      NewRequest_err = (\<lambda>m u. None),
      coordinator = coord,
      store_Do = (\<lambda>m u h n bs. Inr (200, []))\<rparr>"

definition ex_reply :: "nat \<Rightarrow> string \<Rightarrow> string \<Rightarrow> string \<times> string \<Rightarrow> FileMetadata \<Rightarrow> string + coord_reply" where
  "ex_reply code st u creds meta =
     Inr \<lparr>StatusCode = code, RespBody = Inr (UploadDestination0\<lparr>Status := st\<rparr>)\<rparr>"

definition ex_reply_no_body ::
  "nat \<Rightarrow> string \<Rightarrow> string \<times> string \<Rightarrow> FileMetadata \<Rightarrow> string + coord_reply" where
  "ex_reply_no_body code u creds meta = Inr \<lparr>StatusCode = code, RespBody = Inl ''EOF''\<rparr>"

definition ex_api_head_fails :: s3api where
  "ex_api_head_fails =
     \<lparr>HeadObject = (\<lambda>b k. Some ''RequestError: send request failed''), Presign = ex_presign\<rparr>"

definition ex_api_presign_fails :: s3api where
  "ex_api_presign_fails =
     \<lparr>HeadObject = (\<lambda>b k. Some ''NotFound''), Presign = (\<lambda>input expire. Inl ''presign failed'')\<rparr>"

definition ex_video_meta :: FileMetadata where
  "ex_video_meta = \<lparr>ID = ''0a1b'', Name = ''a.jpg'', Mtime = ex_time, Bytes = 3,
                     ContentType = ''video/mp4'', TestUpload = True\<rparr>"

section \<open>Facts about the library functions\<close>

subsection \<open>Digits, timestamps and lexical paths\<close>

lemma isDigit_digit_char: "isDigit (digit_char d)"
proof -
  have "\<forall>k\<in>{..<10}. isDigit (''0123456789'' ! k)"
    by (simp add: lessThan_Suc numeral_eq_Suc isDigit_def)
  moreover have "d mod 10 \<in> {..<10}" by simp
  ultimately show ?thesis unfolding digit_char_def by blast
qed

lemma isDigit_0: "isDigit (CHR ''0'')"
  by (simp add: isDigit_def)

lemma not_isDigit_seps:
  "\<not> isDigit (CHR ''-'')" "\<not> isDigit (CHR ''_'')" "\<not> isDigit (CHR ''.'')" "\<not> isDigit (CHR ''/'')"
  by (simp_all add: isDigit_def)

lemma dec_digits: "list_all isDigit (dec n)"
  by (induction n rule: dec.induct) (subst dec.simps, simp add: isDigit_digit_char)

lemma dec_nonempty: "dec n \<noteq> []"
  by (subst dec.simps) simp

lemma appendInt_nonneg:
  "0 \<le> x \<Longrightarrow> list_all isDigit (appendInt x w) \<and> appendInt x w \<noteq> []"
  using dec_digits [of "nat x"]
  by (auto simp: appendInt_def Let_def dec_nonempty isDigit_0 list_all_iff)

lemma appendInt_neg:
  "x < 0 \<Longrightarrow> \<exists>ds. appendInt x w = CHR ''-'' # ds \<and> list_all isDigit ds \<and> ds \<noteq> []"
  using dec_digits [of "nat (- x)"]
  by (auto simp: appendInt_def Let_def dec_nonempty isDigit_0 list_all_iff)

lemma digits_run_unique:
  assumes "list_all isDigit a" "list_all isDigit b" "\<not> isDigit c" "\<not> isDigit d"
    and "a @ c # r = b @ d # s"
  shows "a = b \<and> c = d \<and> r = s"
proof -
  have ta: "takeWhile isDigit (a @ c # r) = a" and da: "dropWhile isDigit (a @ c # r) = c # r"
    using assms(1,3) by (simp_all add: list_all_iff takeWhile_append2 dropWhile_append2)
  have tb: "takeWhile isDigit (b @ d # s) = b" and db: "dropWhile isDigit (b @ d # s) = d # s"
    using assms(2,4) by (simp_all add: list_all_iff takeWhile_append2 dropWhile_append2)
  from ta tb da db assms(5) show ?thesis by simp
qed

lemma nano_buf_length: "length (nano_buf u) = 9"
  by (simp add: nano_buf_def)

lemma formatNano_1:
  "formatNano u (Suc 0) True = (if nano_buf u ! 0 = CHR ''0'' then [] else [CHR ''.'', nano_buf u ! 0])"
proof -
  have "take (Suc 0) (nano_buf u) = [nano_buf u ! 0]"
    using nano_buf_length [of u] by (cases "nano_buf u") simp_all
  then show ?thesis
    by (simp add: formatNano_def Let_def)
qed

lemma appendInt_nat: "list_all isDigit (appendInt (int n) w)"
  using appendInt_nonneg [of "int n" w] by simp

lemma of_char_digit_char: "of_char (digit_char d) = (48 + d mod 10 :: nat)"
proof -
  have "\<forall>k\<in>{..<10}. of_char (''0123456789'' ! k) = (48 + k :: nat)"
    by (simp add: lessThan_Suc numeral_eq_Suc)
  moreover have "d mod 10 \<in> {..<10}" by simp
  ultimately show ?thesis unfolding digit_char_def by blast
qed

lemma digit_char_eq_iff: "(digit_char a = digit_char b) = (a mod 10 = b mod 10)"
proof
  assume "digit_char a = digit_char b"
  then have "(of_char (digit_char a) :: nat) = of_char (digit_char b)" by simp
  then show "a mod 10 = b mod 10" by (simp add: of_char_digit_char)
next
  assume "a mod 10 = b mod 10"
  then show "digit_char a = digit_char b" by (simp add: digit_char_def)
qed

lemma digits_value_dec:
  "foldl (\<lambda>a c. 10 * a + (of_char c - 48)) (0::nat) (dec n) = n"
proof (induction n rule: dec.induct)
  case (1 n)
  show ?case
  proof (cases "n < 10")
    case True
    then show ?thesis by (subst dec.simps) (simp add: of_char_digit_char)
  next
    case False
    with 1 show ?thesis by (subst dec.simps) (simp add: of_char_digit_char)
  qed
qed

lemma digits_value_zeros:
  "foldl (\<lambda>a c. 10 * a + (of_char c - 48)) (0::nat) (replicate k (CHR ''0'') @ s) =
   foldl (\<lambda>a c. 10 * a + (of_char c - 48)) (0::nat) s"
  by (induction k) simp_all

lemma appendInt_inj:
  assumes "appendInt x w = appendInt y w"
  shows "x = y"
proof -
  let ?v = "foldl (\<lambda>a c. 10 * a + (of_char c - 48)) (0::nat)"
  have pos: "?v (appendInt z w) = nat z" if "0 \<le> z" for z
    using that by (simp add: appendInt_def Let_def digits_value_zeros digits_value_dec del: foldl_append)
  have neg: "appendInt z w = CHR ''-'' # replicate (w - length (dec (nat (- z)))) (CHR ''0'') @ dec (nat (- z))"
    if "z < 0" for z
    using that by (simp add: appendInt_def Let_def)
  have hd_pos: "hd (appendInt z w) \<noteq> CHR ''-''" if "0 \<le> z" for z
  proof -
    from that have "list_all isDigit (appendInt z w)" "appendInt z w \<noteq> []"
      using appendInt_nonneg [of z w] by simp_all
    then show ?thesis by (cases "appendInt z w") (auto simp: isDigit_def)
  qed
  show ?thesis
  proof (cases "x < 0")
    case xn: True
    show ?thesis
    proof (cases "y < 0")
      case True
      from assms neg [OF xn] neg [OF True]
      have "?v (replicate (w - length (dec (nat (- x)))) (CHR ''0'') @ dec (nat (- x))) =
            ?v (replicate (w - length (dec (nat (- y)))) (CHR ''0'') @ dec (nat (- y)))"
        by simp
      then have "nat (- x) = nat (- y)"
        by (simp only: digits_value_zeros digits_value_dec)
      with xn True show ?thesis by simp
    next
      case False
      then have "hd (appendInt y w) \<noteq> CHR ''-''" using hd_pos [of y] by simp
      moreover have "hd (appendInt x w) = CHR ''-''" using neg [OF xn] by simp
      ultimately show ?thesis using assms by simp
    qed
  next
    case xp: False
    show ?thesis
    proof (cases "y < 0")
      case True
      have "hd (appendInt x w) \<noteq> CHR ''-''" using hd_pos [of x] xp by simp
      moreover have "hd (appendInt y w) = CHR ''-''" using neg [OF True] by simp
      ultimately show ?thesis using assms by simp
    next
      case False
      with xp assms pos [of x] pos [of y] show ?thesis by simp
    qed
  qed
qed

lemma Format_key_parts:
  assumes "Format_key t1 @ CHR ''-'' # r1 = Format_key t2 @ CHR ''-'' # r2"
  shows "appendInt (Year t1) 4 = appendInt (Year t2) 4 \<and>
         appendInt (int (Month t1)) 2 = appendInt (int (Month t2)) 2 \<and>
         appendInt (int (Day t1)) 2 = appendInt (int (Day t2)) 2 \<and>
         appendInt (int (Hour t1)) 2 = appendInt (int (Hour t2)) 2 \<and>
         appendInt (int (Minute t1)) 2 = appendInt (int (Minute t2)) 2 \<and>
         appendInt (int (Second t1)) 2 = appendInt (int (Second t2)) 2 \<and>
         formatNano (Nanosecond t1) 1 True = formatNano (Nanosecond t2) 1 True \<and> r1 = r2"
proof -
  define F where "F t = formatNano (Nanosecond t) 1 True" for t :: Time
  define T5 where "T5 t r = appendInt (int (Second t)) 2 @ F t @ CHR ''-'' # r" for t :: Time and r
  define T4 where "T4 t r = appendInt (int (Minute t)) 2 @ CHR ''_'' # T5 t r" for t :: Time and r
  define T3 where "T3 t r = appendInt (int (Hour t)) 2 @ CHR ''_'' # T4 t r" for t :: Time and r
  define T2 where "T2 t r = appendInt (int (Day t)) 2 @ CHR ''-'' # T3 t r" for t :: Time and r
  define T1 where "T1 t r = appendInt (int (Month t)) 2 @ CHR ''-'' # T2 t r" for t :: Time and r
  have unfold: "Format_key t @ CHR ''-'' # r = appendInt (Year t) 4 @ CHR ''-'' # T1 t r" for t :: Time and r
    by (simp add: Format_key_def T1_def T2_def T3_def T4_def T5_def F_def)
  have eq0: "appendInt (Year t1) 4 @ CHR ''-'' # T1 t1 r1 = appendInt (Year t2) 4 @ CHR ''-'' # T1 t2 r2"
    using assms by (simp only: unfold)
  have nd: "\<not> isDigit (CHR ''-'')" "\<not> isDigit (CHR ''_'')" "\<not> isDigit (CHR ''.'')"
    by (simp_all add: isDigit_def)
  have Y: "appendInt (Year t1) 4 = appendInt (Year t2) 4 \<and> T1 t1 r1 = T1 t2 r2"
  proof (cases "Year t1 < 0")
    case n1: True
    then obtain d1 where d1: "appendInt (Year t1) 4 = CHR ''-'' # d1" "list_all isDigit d1"
      using appendInt_neg by blast
    show ?thesis
    proof (cases "Year t2 < 0")
      case True
      then obtain d2 where d2: "appendInt (Year t2) 4 = CHR ''-'' # d2" "list_all isDigit d2"
        using appendInt_neg by blast
      from eq0 d1 d2 have "d1 @ CHR ''-'' # T1 t1 r1 = d2 @ CHR ''-'' # T1 t2 r2" by simp
      from digits_run_unique [OF d1(2) d2(2) nd(1) nd(1) this] d1 d2 show ?thesis by simp
    next
      case False
      then have "list_all isDigit (appendInt (Year t2) 4)" "appendInt (Year t2) 4 \<noteq> []"
        using appendInt_nonneg [of "Year t2" 4] by simp_all
      then obtain c cs where "appendInt (Year t2) 4 = c # cs" "isDigit c"
        by (cases "appendInt (Year t2) 4") auto
      with eq0 d1 nd show ?thesis by simp
    qed
  next
    case p1: False
    then have a1: "list_all isDigit (appendInt (Year t1) 4)" "appendInt (Year t1) 4 \<noteq> []"
      using appendInt_nonneg [of "Year t1" 4] by simp_all
    show ?thesis
    proof (cases "Year t2 < 0")
      case True
      then obtain d2 where d2: "appendInt (Year t2) 4 = CHR ''-'' # d2"
        using appendInt_neg by blast
      from a1 obtain c cs where "appendInt (Year t1) 4 = c # cs" "isDigit c"
        by (cases "appendInt (Year t1) 4") auto
      with eq0 d2 nd show ?thesis by simp
    next
      case False
      then have a2: "list_all isDigit (appendInt (Year t2) 4)"
        using appendInt_nonneg [of "Year t2" 4] by simp
      from digits_run_unique [OF a1(1) a2 nd(1) nd(1) eq0] show ?thesis by simp
    qed
  qed
  then have "appendInt (int (Month t1)) 2 @ CHR ''-'' # T2 t1 r1 =
             appendInt (int (Month t2)) 2 @ CHR ''-'' # T2 t2 r2"
    by (simp add: T1_def)
  from digits_run_unique [OF appendInt_nat appendInt_nat nd(1) nd(1) this]
  have M: "appendInt (int (Month t1)) 2 = appendInt (int (Month t2)) 2" and "T2 t1 r1 = T2 t2 r2"
    by simp_all
  then have "appendInt (int (Day t1)) 2 @ CHR ''-'' # T3 t1 r1 =
             appendInt (int (Day t2)) 2 @ CHR ''-'' # T3 t2 r2"
    by (simp add: T2_def)
  from digits_run_unique [OF appendInt_nat appendInt_nat nd(1) nd(1) this]
  have D: "appendInt (int (Day t1)) 2 = appendInt (int (Day t2)) 2" and "T3 t1 r1 = T3 t2 r2"
    by simp_all
  then have "appendInt (int (Hour t1)) 2 @ CHR ''_'' # T4 t1 r1 =
             appendInt (int (Hour t2)) 2 @ CHR ''_'' # T4 t2 r2"
    by (simp add: T3_def)
  from digits_run_unique [OF appendInt_nat appendInt_nat nd(2) nd(2) this]
  have H: "appendInt (int (Hour t1)) 2 = appendInt (int (Hour t2)) 2" and "T4 t1 r1 = T4 t2 r2"
    by simp_all
  then have "appendInt (int (Minute t1)) 2 @ CHR ''_'' # T5 t1 r1 =
             appendInt (int (Minute t2)) 2 @ CHR ''_'' # T5 t2 r2"
    by (simp add: T4_def)
  from digits_run_unique [OF appendInt_nat appendInt_nat nd(2) nd(2) this]
  have Mi: "appendInt (int (Minute t1)) 2 = appendInt (int (Minute t2)) 2" and t5: "T5 t1 r1 = T5 t2 r2"
    by simp_all
  have Fshape: "\<exists>c x. F t @ CHR ''-'' # r = c # x \<and> \<not> isDigit c" for t :: Time and r
    by (simp add: F_def formatNano_1 nd exI [of _ "CHR ''-''"] exI [of _ "CHR ''.''"])
  obtain c1 x1 where c1: "F t1 @ CHR ''-'' # r1 = c1 # x1" "\<not> isDigit c1" using Fshape by blast
  obtain c2 x2 where c2: "F t2 @ CHR ''-'' # r2 = c2 # x2" "\<not> isDigit c2" using Fshape by blast
  from t5 have "appendInt (int (Second t1)) 2 @ c1 # x1 = appendInt (int (Second t2)) 2 @ c2 # x2"
    by (simp add: T5_def c1 c2)
  from digits_run_unique [OF appendInt_nat appendInt_nat c1(2) c2(2) this] c1 c2
  have S: "appendInt (int (Second t1)) 2 = appendInt (int (Second t2)) 2"
    and f: "F t1 @ CHR ''-'' # r1 = F t2 @ CHR ''-'' # r2"
    by simp_all
  have FF: "F t1 = F t2 \<and> r1 = r2"
    using f by (auto simp: F_def formatNano_1 split: if_splits)
  with Y M D H Mi S show ?thesis
    by (simp add: F_def)
qed

lemma Format_key_cancel:
  assumes "Format_key t1 @ CHR ''-'' # r1 = Format_key t2 @ CHR ''-'' # r2"
  shows "Format_key t1 = Format_key t2 \<and> r1 = r2"
  using Format_key_parts [OF assms] by (simp add: Format_key_def)

lemma formatNano_eq_iff:
  "(formatNano u1 (Suc 0) True = formatNano u2 (Suc 0) True) =
   (u1 div 10 ^ 8 mod 10 = u2 div 10 ^ 8 mod 10)"
proof -
  have b: "nano_buf u ! 0 = digit_char (u div 10 ^ 8)" for u
    by (simp add: nano_buf_def upt_rec)
  have z: "(digit_char d = CHR ''0'') = (d mod 10 = 0)" for d
    using digit_char_eq_iff [of d 0] by (simp add: digit_char_def)
  show ?thesis
    by (auto simp: formatNano_1 b z digit_char_eq_iff)
qed

lemma Format_key_eq_iff:
  "(Format_key t1 = Format_key t2) =
   (Year t1 = Year t2 \<and> Month t1 = Month t2 \<and> Day t1 = Day t2 \<and> Hour t1 = Hour t2 \<and>
    Minute t1 = Minute t2 \<and> Second t1 = Second t2 \<and>
    Nanosecond t1 div 10 ^ 8 mod 10 = Nanosecond t2 div 10 ^ 8 mod 10)"
proof
  assume "Format_key t1 = Format_key t2"
  then have "Format_key t1 @ CHR ''-'' # [] = Format_key t2 @ CHR ''-'' # []" by simp
  from Format_key_parts [OF this] show
    "Year t1 = Year t2 \<and> Month t1 = Month t2 \<and> Day t1 = Day t2 \<and> Hour t1 = Hour t2 \<and>
     Minute t1 = Minute t2 \<and> Second t1 = Second t2 \<and>
     Nanosecond t1 div 10 ^ 8 mod 10 = Nanosecond t2 div 10 ^ 8 mod 10"
    by (auto dest!: appendInt_inj simp: formatNano_eq_iff)
next
  assume "Year t1 = Year t2 \<and> Month t1 = Month t2 \<and> Day t1 = Day t2 \<and> Hour t1 = Hour t2 \<and>
    Minute t1 = Minute t2 \<and> Second t1 = Second t2 \<and>
    Nanosecond t1 div 10 ^ 8 mod 10 = Nanosecond t2 div 10 ^ 8 mod 10"
  then show "Format_key t1 = Format_key t2"
    by (simp add: Format_key_def formatNano_eq_iff)
qed

lemma clean_loop_slash: "clean_loop rooted (CHR ''/'' # ys) out dd = clean_loop rooted ys out dd"
  by (simp add: clean_loop.simps)

lemma clean_loop_split:
  "\<exists>out' dd'. \<forall>ys. clean_loop rooted (xs @ CHR ''/'' # ys) out dd = clean_loop rooted ys out' dd'"
proof (induction rooted xs out dd rule: clean_loop.induct)
  case (1 rooted out dotdot)
  show ?case by (simp add: clean_loop_slash) blast
next
  case (2 rooted c cs out dotdot)
  let ?B = "c = CHR ''.'' \<and> (cs = [] \<or> hd cs = CHR ''/'')"
  let ?C = "c = CHR ''.'' \<and> hd cs = CHR ''.'' \<and> (tl cs = [] \<or> hd (tl cs) = CHR ''/'')"
  let ?out1 = "(if (rooted \<and> length out \<noteq> 1) \<or> (\<not> rooted \<and> length out \<noteq> 0) then out @ ''/'' else out)"
  let ?out2 = "(if length out > 0 then out @ ''/'' else out) @ ''..''"
  consider (A) "c = CHR ''/''" | (B) "c \<noteq> CHR ''/''" ?B
    | (C) "c \<noteq> CHR ''/''" "\<not> ?B" ?C | (D) "c \<noteq> CHR ''/''" "\<not> ?B" "\<not> ?C"
    by blast
  then show ?case
  proof cases
    case A
    from 2(1) [OF A] obtain o' d' where
      "\<forall>ys. clean_loop rooted (cs @ CHR ''/'' # ys) out dotdot = clean_loop rooted ys o' d'" by blast
    with A show ?thesis by (simp add: clean_loop.simps(2)) blast
  next
    case B
    from 2(2) [OF B] obtain o' d' where
      "\<forall>ys. clean_loop rooted (cs @ CHR ''/'' # ys) out dotdot = clean_loop rooted ys o' d'" by blast
    moreover have "cs @ CHR ''/'' # ys \<noteq> [] \<and> hd (cs @ CHR ''/'' # ys) = CHR ''/''" for ys
      using B by (cases cs) auto
    ultimately show ?thesis using B by (simp add: clean_loop.simps(2)) blast
  next
    case C
    then have cs: "cs \<noteq> []" by auto
    have hd_eq: "hd (cs @ CHR ''/'' # ys) = CHR ''.''" for ys using C cs by simp
    have tl_eq: "tl (cs @ CHR ''/'' # ys) = tl cs @ CHR ''/'' # ys" for ys using cs by simp
    have hd_tl: "hd (tl cs @ CHR ''/'' # ys) = CHR ''/''" for ys using C by (cases "tl cs") auto
    have nB: "\<not> (cs @ CHR ''/'' # ys = [] \<or> hd (cs @ CHR ''/'' # ys) = CHR ''/'')" for ys
      using hd_eq by simp
    have step: "clean_loop rooted (c # cs @ CHR ''/'' # ys) out dotdot =
        (if length out > dotdot then clean_loop rooted (tl cs @ CHR ''/'' # ys) (backtrack out dotdot) dotdot
         else if rooted then clean_loop rooted (tl cs @ CHR ''/'' # ys) out dotdot
         else clean_loop rooted (tl cs @ CHR ''/'' # ys) ?out2 (length ?out2))" for ys
      using C nB [of ys] by (simp add: clean_loop.simps(2) hd_eq tl_eq hd_tl)
    show ?thesis
    proof (cases "length out > dotdot")
      case True
      from 2(3) [OF C True] obtain o' d' where
        "\<forall>ys. clean_loop rooted (tl cs @ CHR ''/'' # ys) (backtrack out dotdot) dotdot = clean_loop rooted ys o' d'"
        by blast
      with True step show ?thesis by simp blast
    next
      case False
      show ?thesis
      proof (cases rooted)
        case True
        from 2(4) [OF C False True] obtain o' d' where
          "\<forall>ys. clean_loop rooted (tl cs @ CHR ''/'' # ys) out dotdot = clean_loop rooted ys o' d'"
          by blast
        with True False step show ?thesis by simp blast
      next
        case nr: False
        from 2(5) [OF C False nr] obtain o' d' where
          "\<forall>ys. clean_loop rooted (tl cs @ CHR ''/'' # ys) ?out2 (length ?out2) = clean_loop rooted ys o' d'"
          by blast
        with nr False step show ?thesis by simp blast
      qed
    qed
  next
    case D
    have cases_eq: "(cs @ CHR ''/'' # ys = [] \<or> hd (cs @ CHR ''/'' # ys) = CHR ''/'') = (cs = [] \<or> hd cs = CHR ''/'')"
      "cs \<noteq> [] \<Longrightarrow> hd (cs @ CHR ''/'' # ys) = hd cs"
      "cs \<noteq> [] \<Longrightarrow> (tl (cs @ CHR ''/'' # ys) = [] \<or> hd (tl (cs @ CHR ''/'' # ys)) = CHR ''/'')
          = (tl cs = [] \<or> hd (tl cs) = CHR ''/'')" for ys
      by (cases cs; cases "tl cs"; simp)+
    have nB: "\<not> (c = CHR ''.'' \<and> (cs @ CHR ''/'' # ys = [] \<or> hd (cs @ CHR ''/'' # ys) = CHR ''/''))" for ys
      using D(2) cases_eq(1) [of ys] by simp
    have nC: "\<not> (c = CHR ''.'' \<and> hd (cs @ CHR ''/'' # ys) = CHR ''.'' \<and>
                 (tl (cs @ CHR ''/'' # ys) = [] \<or> hd (tl (cs @ CHR ''/'' # ys)) = CHR ''/''))" for ys
    proof (cases "cs = []")
      case True
      then show ?thesis by simp
    next
      case False
      with D(3) cases_eq(2,3) [OF False, of ys] show ?thesis by simp
    qed
    have step: "clean_loop rooted (c # cs @ CHR ''/'' # ys) out dotdot =
        clean_loop rooted (dropWhile notSlash (cs @ CHR ''/'' # ys))
          (?out1 @ c # takeWhile notSlash (cs @ CHR ''/'' # ys)) dotdot" for ys
      using D(1) nB [of ys] nC [of ys] by (simp only: clean_loop.simps(2) if_False)
    show ?thesis
    proof (cases "\<forall>x\<in>set cs. notSlash x")
      case True
      then have "dropWhile notSlash (cs @ CHR ''/'' # ys) = CHR ''/'' # ys"
        "takeWhile notSlash (cs @ CHR ''/'' # ys) = cs" for ys
        by (simp_all add: notSlash_def)
      with step show ?thesis by (simp add: clean_loop_slash) blast
    next
      case False
      then have "dropWhile notSlash (cs @ CHR ''/'' # ys) = dropWhile notSlash cs @ CHR ''/'' # ys"
        "takeWhile notSlash (cs @ CHR ''/'' # ys) = takeWhile notSlash cs" for ys
        by (auto simp: dropWhile_append1 takeWhile_append1)
      moreover from 2(6) [OF D] obtain o' d' where
        "\<forall>ys. clean_loop rooted (dropWhile notSlash cs @ CHR ''/'' # ys)
                 (?out1 @ c # takeWhile notSlash cs) dotdot = clean_loop rooted ys o' d'"
        by blast
      ultimately show ?thesis using step by simp blast
    qed
  qed
qed

lemma clean_loop_single:
  assumes "e \<noteq> []" "\<forall>x\<in>set e. notSlash x" "hd e \<noteq> CHR ''.''"
  shows "clean_loop rooted e out dd =
           (if (rooted \<and> length out \<noteq> 1) \<or> (\<not> rooted \<and> length out \<noteq> 0)
            then out @ ''/'' else out) @ e"
proof -
  from assms(1) obtain c cs where e: "e = c # cs" by (cases e) auto
  with assms have c: "c \<noteq> CHR ''/''" "c \<noteq> CHR ''.''" and cs: "\<forall>x\<in>set cs. notSlash x"
    by (auto simp: notSlash_def)
  from cs have dw: "dropWhile notSlash cs = []" and tw: "takeWhile notSlash cs = cs" by simp_all
  from c show ?thesis
    unfolding e by (simp add: clean_loop.simps dw tw)
qed

lemma Join_elem:
  "\<exists>pre. \<forall>e. e \<noteq> [] \<and> (\<forall>x\<in>set e. notSlash x) \<and> hd e \<noteq> CHR ''.'' \<longrightarrow> Join [p, e] = pre @ e"
proof (cases "p = []")
  case True
  have "Join [p, e] = [] @ e" if "e \<noteq> []" "\<forall>x\<in>set e. notSlash x" "hd e \<noteq> CHR ''.''" for e
  proof -
    from that have "hd e \<noteq> CHR ''/''" by (cases e) (auto simp: notSlash_def)
    with that True show ?thesis
      by (simp add: Join_def Clean_def clean_loop_single)
  qed
  then show ?thesis by blast
next
  case False
  then have buf: "join_buf [] [p, e] = p @ CHR ''/'' # e" for e by simp
  show ?thesis
  proof (cases "hd p = CHR ''/''")
    case True
    obtain o' d' where split:
      "\<forall>ys. clean_loop True (tl p @ CHR ''/'' # ys) ''/'' 1 = clean_loop True ys o' d'"
      using clean_loop_split by blast
    have "Join [p, e] = (if length o' \<noteq> 1 then o' @ ''/'' else o') @ e"
      if "e \<noteq> []" "\<forall>x\<in>set e. notSlash x" "hd e \<noteq> CHR ''.''" for e
      using that False True split
      by (simp add: Join_def Clean_def buf clean_loop_single)
    then show ?thesis by blast
  next
    case nr: False
    obtain o' d' where split:
      "\<forall>ys. clean_loop False (p @ CHR ''/'' # ys) [] 0 = clean_loop False ys o' d'"
      using clean_loop_split by blast
    have "Join [p, e] = (if length o' \<noteq> 0 then o' @ ''/'' else o') @ e"
      if "e \<noteq> []" "\<forall>x\<in>set e. notSlash x" "hd e \<noteq> CHR ''.''" for e
      using that False nr split
      by (simp add: Join_def Clean_def buf clean_loop_single)
    then show ?thesis by blast
  qed
qed

lemma appendInt_chars: "\<forall>c\<in>set (appendInt x w). isDigit c \<or> c = CHR ''-''"
proof (cases "x < 0")
  case True
  then show ?thesis using appendInt_neg [OF True, of w] by (auto simp: list_all_iff)
next
  case False
  then show ?thesis using appendInt_nonneg [of x w] by (auto simp: list_all_iff)
qed

lemma isDigit_notSlash: "isDigit c \<Longrightarrow> notSlash c"
  by (auto simp: isDigit_def notSlash_def)

lemma appendInt_notSlash: "list_all notSlash (appendInt x w)"
  using appendInt_chars [of x w] isDigit_notSlash by (auto simp: notSlash_def list_all_iff)

lemma formatNano_notSlash: "list_all notSlash (formatNano u (Suc 0) True)"
proof -
  have "isDigit (nano_buf u ! 0)"
    by (simp add: nano_buf_def isDigit_digit_char upt_rec)
  then show ?thesis
    by (auto simp: formatNano_1 notSlash_def isDigit_def)
qed

lemma Format_key_notSlash: "list_all notSlash (Format_key t)"
  by (simp add: Format_key_def appendInt_notSlash formatNano_notSlash)
     (simp add: notSlash_def)

lemma appendInt_hd: "appendInt x w \<noteq> [] \<and> hd (appendInt x w) \<noteq> CHR ''.''"
proof (cases "x < 0")
  case True
  then show ?thesis using appendInt_neg [OF True, of w] by auto
next
  case False
  then have "list_all isDigit (appendInt x w)" "appendInt x w \<noteq> []"
    using appendInt_nonneg [of x w] by simp_all
  then show ?thesis by (cases "appendInt x w") (auto simp: isDigit_def)
qed

lemma Format_key_hd: "Format_key t \<noteq> [] \<and> hd (Format_key t) \<noteq> CHR ''.''"
  using appendInt_hd [of "Year t" 4] by (simp add: Format_key_def)

lemma s3Path_collision:
  assumes id: "ID m1 = ID m2"
    and ns: "list_all notSlash (ID m1)" "list_all notSlash (Name m1)" "list_all notSlash (Name m2)"
  shows "(s3Path_of s m1 = s3Path_of s m2) =
         (Format_key (Mtime m1) = Format_key (Mtime m2) \<and> Name m1 = Name m2)"
proof -
  define e where "e m = Format_key (Mtime m) @ ''-'' @ ID m @ ''-'' @ Name m" for m :: FileMetadata
  have path: "s3Path_of s m = Join [pathPrefix s, e m]" for m
    by (simp add: s3Path_of_def e_def Let_def)
  have ok: "e m \<noteq> [] \<and> (\<forall>x\<in>set (e m). notSlash x) \<and> hd (e m) \<noteq> CHR ''.''"
    if "list_all notSlash (ID m)" "list_all notSlash (Name m)" for m
    using that Format_key_notSlash [of "Mtime m"] Format_key_hd [of "Mtime m"]
    by (auto simp: e_def notSlash_def list_all_iff)
  obtain pre where pre:
    "\<forall>x. x \<noteq> [] \<and> (\<forall>c\<in>set x. notSlash c) \<and> hd x \<noteq> CHR ''.'' \<longrightarrow> Join [pathPrefix s, x] = pre @ x"
    using Join_elem by blast
  have j1: "Join [pathPrefix s, e m1] = pre @ e m1" using pre ok [of m1] ns by blast
  have j2: "Join [pathPrefix s, e m2] = pre @ e m2" using pre ok [of m2] ns id by simp
  show ?thesis
  proof
    assume "s3Path_of s m1 = s3Path_of s m2"
    then have "e m1 = e m2" by (simp add: path j1 j2)
    then have "Format_key (Mtime m1) @ CHR ''-'' # (ID m1 @ ''-'' @ Name m1) =
               Format_key (Mtime m2) @ CHR ''-'' # (ID m1 @ ''-'' @ Name m2)"
      by (simp add: e_def id)
    from Format_key_cancel [OF this]
    show "Format_key (Mtime m1) = Format_key (Mtime m2) \<and> Name m1 = Name m2" by simp
  next
    assume "Format_key (Mtime m1) = Format_key (Mtime m2) \<and> Name m1 = Name m2"
    then show "s3Path_of s m1 = s3Path_of s m2" by (simp add: s3Path_of_def id)
  qed
qed


lemma replicate_numeral: "replicate (numeral k) x = x # replicate (numeral k - 1) x"
  by (simp add: numeral_eq_Suc)

lemmas eval_time = replicate_numeral Format_key_def Format_RFC3339_def zone_RFC3339_def
  appendInt_def dec.simps digit_char_def formatNano_def nano_buf_def Let_def upt_rec Itoa_def

lemmas eval_path = Join_def Clean_def clean_loop.simps backtrack_def backtrack_loop.simps
  notSlash_def

lemmas eval_header = Header_Set_def CanonicalMIMEHeaderKey_def validHeaderFieldByte_def
  isDigit_def lower_letters_def upper_letters_def toUpperByte_def toLowerByte_def

section \<open>Properties of the coordinator\<close>

lemma canonical_keys:
  "CanonicalMIMEHeaderKey ''content-length'' = ''Content-Length''"
  "CanonicalMIMEHeaderKey ''content-type'' = ''Content-Type''"
  "CanonicalMIMEHeaderKey ''x-amz-meta-filename'' = ''X-Amz-Meta-Filename''"
  "CanonicalMIMEHeaderKey ''x-amz-meta-mtime'' = ''X-Amz-Meta-Mtime''"
  "CanonicalMIMEHeaderKey ''x-amz-meta-test-upload'' = ''X-Amz-Meta-Test-Upload''"
  "CanonicalMIMEHeaderKey ''WWW-Authenticate'' = ''Www-Authenticate''"
  "CanonicalMIMEHeaderKey ''Content-Type'' = ''Content-Type''"
  "CanonicalMIMEHeaderKey ''X-Content-Type-Options'' = ''X-Content-Type-Options''"
  by code_simp+

lemma ok_headers_eq:
  "ok_headers meta (putObjInput_of s meta) =
     [(''Content-Length'', [Itoa (sint (Bytes meta))]),
      (''Content-Type'', [ContentType meta]),
      (''X-Amz-Meta-Filename'', [Name meta]),
      (''X-Amz-Meta-Mtime'', [Format_RFC3339 (Mtime meta)])] @
     (if TestUpload meta then [(''X-Amz-Meta-Test-Upload'', [''true''])] else [])"
  by (simp add: ok_headers_def putObjInput_of_def Header_Set_def canonical_keys Let_def)

text \<open>
  The header map does not depend on the order in which the loop over the metadata
  visits its entries: every list of the same entries, each once, gives the same map.
\<close>

lemma map_of_alist_set: "map_of (alist_set k v h) = (map_of h)(k \<mapsto> v)"
  by (induction h) (auto simp: fun_eq_iff)

lemma map_of_set_meta_headers:
  "map_of (set_meta_headers h kvs) =
   map_of h ++ map_of (rev (map (\<lambda>(k, v). (CanonicalMIMEHeaderKey (''x-amz-meta-'' @ k), [v])) kvs))"
proof (induction kvs arbitrary: h)
  case Nil
  then show ?case by simp
next
  case (Cons kv kvs)
  obtain k v where kv: "kv = (k, v)" by (cases kv)
  show ?case
    unfolding kv
    by (simp add: Cons.IH Header_Set_def map_of_alist_set map_add_def fun_eq_iff split: option.splits)
qed

lemma meta_keys_canonical_inj:
  assumes "k \<in> {''filename'', ''mtime'', ''test-upload''}" "k' \<in> {''filename'', ''mtime'', ''test-upload''}"
    and "CanonicalMIMEHeaderKey (''x-amz-meta-'' @ k) = CanonicalMIMEHeaderKey (''x-amz-meta-'' @ k')"
  shows "k = k'"
  using assms by (auto simp: canonical_keys)

lemma meta_headers_any_order:
  assumes "distinct (map fst kvs)" and "set kvs = set (PutMetadata (putObjInput_of s meta))"
  shows "map_of (set_meta_headers h kvs) =
         map_of (set_meta_headers h (PutMetadata (putObjInput_of s meta)))"
proof -
  let ?f = "\<lambda>(k, v). (CanonicalMIMEHeaderKey (''x-amz-meta-'' @ k), [v :: string])"
  let ?m = "PutMetadata (putObjInput_of s meta)"
  have keys: "fst ` set ?m \<subseteq> {''filename'', ''mtime'', ''test-upload''}"
    by (auto simp: putObjInput_of_def Let_def)
  have dm: "distinct (map fst ?m)"
    by (simp add: putObjInput_of_def Let_def)
  have inj: "inj_on (\<lambda>kv. fst (?f kv)) (set xs)"
    if "distinct (map fst xs)" "fst ` set xs \<subseteq> {''filename'', ''mtime'', ''test-upload''}" for xs
  proof (rule inj_onI)
    fix a b assume ab: "a \<in> set xs" "b \<in> set xs" "fst (?f a) = fst (?f b)"
    then have "fst a = fst b"
      using that(2) meta_keys_canonical_inj [of "fst a" "fst b"]
      by (auto simp: case_prod_beta)
    with that(1) ab(1,2) show "a = b"
      by (cases a; cases b) (auto dest: eq_key_imp_eq_value)
  qed
  have d: "distinct (map fst (rev (map ?f xs)))"
    if "distinct (map fst xs)" "fst ` set xs \<subseteq> {''filename'', ''mtime'', ''test-upload''}" for xs
  proof -
    have "distinct xs" using that(1) by (rule distinct_map [THEN iffD1, THEN conjunct1])
    then have "distinct (map (\<lambda>kv. fst (?f kv)) xs)"
      using inj [OF that] by (simp add: distinct_map)
    then show ?thesis by (simp add: rev_map [symmetric] comp_def distinct_rev)
  qed
  from assms keys have keys': "fst ` set kvs \<subseteq> {''filename'', ''mtime'', ''test-upload''}" by simp
  have "map_of (rev (map ?f kvs)) = map_of (rev (map ?f ?m))"
    using d [OF assms(1) keys'] d [OF dm keys] assms(2)
    by (subst map_of_inject_set) simp_all
  then show ?thesis by (simp add: map_of_set_meta_headers)
qed

lemma status_distinct:
  "StatusErr \<noteq> StatusOK" "StatusSkipUpload \<noteq> StatusOK" "StatusSkipUpload \<noteq> StatusErr"
  by (simp_all add: StatusErr_def StatusOK_def StatusSkipUpload_def)

text \<open>
  Claim C4. Whenever \<^verbatim>\<open>handleUploadRequest\<close> answers with status \<^verbatim>\<open>ok\<close>, the
  method of the decision is \<^verbatim>\<open>PUT\<close> and its headers are exactly these: the content
  length as the decimal rendering of the size, the content type, the file name, the
  modification time in RFC 3339, and the test-upload marker \<^verbatim>\<open>true\<close> if and only
  if the metadata has \<^verbatim>\<open>TestUpload\<close> set. \<^verbatim>\<open>Header.Set\<close> stores the names in
  canonical form; header names do not distinguish case. Go's \<^verbatim>\<open>int\<close> has 64 bits
  on the platforms the lambda runs on. Nothing has been written to the response
  before the handler runs.
\<close>

theorem upload_ok_capability:
  assumes "ReqBody r = Inr meta"
    and "WBody (fst (handleUploadRequest s api w r)) = JsonBody d"
    and "Status d = StatusOK"
    and fresh: "WBody w = NoBody"
  shows "Method d = ''PUT'' \<and>
         Headers d =
           [(''Content-Length'', [Itoa (sint (Bytes meta))]),
            (''Content-Type'', [ContentType meta]),
            (''X-Amz-Meta-Filename'', [Name meta]),
            (''X-Amz-Meta-Mtime'', [Format_RFC3339 (Mtime meta)])] @
           (if TestUpload meta then [(''X-Amz-Meta-Test-Upload'', [''true''])] else [])"
proof (cases "ReqMethod r = ''POST''")
  case False
  with assms(2) show ?thesis
    by (simp add: handleUploadRequest_def http_Error_def)
next
  case post: True
  show ?thesis
  proof (cases "HeadObject api (bucket s) (s3Path_of s meta)")
    case None
    with post assms show ?thesis
      by (auto simp: handleUploadRequest_def Encode_def UploadDestination0_def status_distinct)
  next
    case (Some e)
    show ?thesis
    proof (cases "Presign api (putObjInput_of s meta) 60")
      case (Inl e')
      with Some post assms(1,2) have "WBody w = JsonBody d"
        by (simp add: handleUploadRequest_def Let_def)
      with fresh show ?thesis by simp
    next
      case (Inr u)
      with Some post assms(1,2) have "d = UploadDestination0\<lparr>Status := StatusOK, URL := u,
          Method := ''PUT'', Headers := ok_headers meta (putObjInput_of s meta)\<rparr>"
        by (simp add: handleUploadRequest_def Encode_def Let_def)
      then show ?thesis
        by (simp add: ok_headers_eq)
    qed
  qed
qed


lemmas eval_ex = ex_server_def ex_meta_def ex_time_def ex_request_def ex_presign_def
  ex_compare_def

lemma ex_s3Path: "s3Path_of ex_server ex_meta = ''photos/2021-03-04-05_06_07-0a1b-a.jpg''"
  by (simp add: s3Path_of_def eval_ex eval_time eval_path)

lemma ex_RFC3339: "Format_RFC3339 ex_time = ''2021-03-04T05:06:07Z''"
  by (simp add: eval_ex eval_time)

lemma ex_Itoa: "Itoa 500000 = ''500000''"
  by (simp add: eval_time)

text \<open>
  Claim C4, an instance: the example request against an empty store.
\<close>

theorem upload_ok_capability_witness:
  "ReqBody ex_request = Inr ex_meta \<and>
   WBody (fst (handleUploadRequest ex_server (s3_of_store None {} ex_presign) ResponseWriter0 ex_request)) =
     JsonBody \<lparr>Status = ''ok'', Error = [],
       URL = ''https://s3.example/photos/2021-03-04-05_06_07-0a1b-a.jpg?X-Amz-Signature=1'',
       Method = ''PUT'',
       Headers = [(''Content-Length'', [''500000'']), (''Content-Type'', [''image/jpeg'']),
                  (''X-Amz-Meta-Filename'', [''a.jpg'']),
                  (''X-Amz-Meta-Mtime'', [''2021-03-04T05:06:07Z'']),
                  (''X-Amz-Meta-Test-Upload'', [''true''])]\<rparr>"
proof -
  let ?d = "UploadDestination0\<lparr>Status := StatusOK,
      URL := ''https://s3.example/photos/2021-03-04-05_06_07-0a1b-a.jpg?X-Amz-Signature=1'',
      Method := ''PUT'', Headers := ok_headers ex_meta (putObjInput_of ex_server ex_meta)\<rparr>"
  have body: "ReqBody ex_request = Inr ex_meta" by (simp add: ex_request_def)
  have resp: "WBody (fst (handleUploadRequest ex_server (s3_of_store None {} ex_presign) ResponseWriter0 ex_request)) = JsonBody ?d"
    by (simp add: handleUploadRequest_def s3_of_store_def Let_def ex_s3Path Encode_def
        ex_request_def ex_presign_def putObjInput_of_def)
  have st: "Status ?d = StatusOK" by simp
  have fresh: "WBody ResponseWriter0 = NoBody" by (simp add: ResponseWriter0_def)
  from upload_ok_capability [OF body resp st fresh]
  have "Headers ?d = [(''Content-Length'', [''500000'']), (''Content-Type'', [''image/jpeg'']),
                  (''X-Amz-Meta-Filename'', [''a.jpg'']),
                  (''X-Amz-Meta-Mtime'', [''2021-03-04T05:06:07Z'']),
                  (''X-Amz-Meta-Test-Upload'', [''true''])]"
    by (simp add: ex_meta_def ex_RFC3339 ex_Itoa)
  with body resp show ?thesis
    by (simp add: UploadDestination0_def StatusOK_def)
qed

lemma ex_meta_fields [simp]:
  "ID ex_meta = ''0a1b''" "Name ex_meta = ''a.jpg''" "Mtime ex_meta = ex_time"
  "Bytes ex_meta = 500000" "ContentType ex_meta = ''image/jpeg''" "TestUpload ex_meta"
  by (simp_all add: ex_meta_def)

lemma ex_server_fields [simp]:
  "bucket ex_server = ''photo-bucket''" "pathPrefix ex_server = ''photos''"
  "bcryptPass ex_server = ''$2a$10$hash''"
  by (simp_all add: ex_server_def)

lemma ex_request_fields [simp]:
  "ReqMethod ex_request = ''POST''" "ReqBasicAuth ex_request = Some (''alice'', ''secret'')"
  "ReqBody ex_request = Inr ex_meta"
  by (simp_all add: ex_request_def)

lemma putObjInput_fields [simp]:
  "PutKey (putObjInput_of s m) = s3Path_of s m" "PutBucket (putObjInput_of s m) = bucket s"
  by (simp_all add: putObjInput_of_def Let_def)

text \<open>
  The handler never looks at which error \<^verbatim>\<open>HeadObject\<close> returned: any error
  gives the answer that "not found" gives.
\<close>

lemma head_error_kind_ignored:
  assumes "HeadObject api (bucket s) (s3Path_of s meta) = Some e" and "ReqBody r = Inr meta"
  shows "handleUploadRequest s api w r =
         handleUploadRequest s (api\<lparr>HeadObject := \<lambda>b k. Some ''NotFound''\<rparr>) w r"
  using assms by (simp add: handleUploadRequest_def Let_def)

text \<open>
  Claim C1 asks that an unexpected backend error during the existence check, and a
  failure to build or sign the capability, are answered with status \<^verbatim>\<open>error\<close>. The
  handler does neither. Any error of \<^verbatim>\<open>HeadObject\<close> is taken for "no such object":
  with the request failing in transport the handler goes on to presign and answers
  200 with status \<^verbatim>\<open>ok\<close> and a capability. When presigning fails the handler prints
  the error and returns without writing anything, which is an empty 200 response with
  no status at all.
\<close>

theorem backend_error_not_surfaced:
  "fst (handleUploadRequest ex_server ex_api_head_fails ResponseWriter0 ex_request) =
     \<lparr>WHeader = [], WCode = Some 200,
      WBody = JsonBody \<lparr>Status = ''ok'', Error = [],
        URL = ''https://s3.example/photos/2021-03-04-05_06_07-0a1b-a.jpg?X-Amz-Signature=1'',
        Method = ''PUT'',
        Headers = [(''Content-Length'', [''500000'']), (''Content-Type'', [''image/jpeg'']),
                   (''X-Amz-Meta-Filename'', [''a.jpg'']),
                   (''X-Amz-Meta-Mtime'', [''2021-03-04T05:06:07Z'']),
                   (''X-Amz-Meta-Test-Upload'', [''true''])]\<rparr>\<rparr> \<and>
   fst (handleUploadRequest ex_server ex_api_presign_fails ResponseWriter0 ex_request) =
     \<lparr>WHeader = [], WCode = None, WBody = NoBody\<rparr> \<and>
   StatusCode_of \<lparr>WHeader = [], WCode = None, WBody = NoBody\<rparr> = 200"
  by (simp add: handleUploadRequest_def ex_api_head_fails_def ex_api_presign_fails_def Let_def
      ex_s3Path Encode_def WriteHeader_def ResponseWriter0_def ex_presign_def
      ok_headers_eq ex_RFC3339 ex_Itoa UploadDestination0_def StatusOK_def
      StatusCode_of_def)

text \<open>
  When the existence check finds the object (\<^verbatim>\<open>HeadObject\<close> returns no error), the
  answer is status \<^verbatim>\<open>skip\<close> with code 409, no URL and no headers, and the handler has
  not asked for a presigned request. In particular, once an upload to the key of some
  metadata has completed and the backend does not fail the check, every request whose
  metadata has the same key is answered that way.
\<close>

lemma found_object_skips:
  assumes "ReqMethod r = ''POST''" and "ReqBody r = Inr meta"
  shows "(HeadObject api (bucket s) (s3Path_of s meta) = None \<longrightarrow>
            handleUploadRequest s api w r =
              (Encode (WriteHeader w 409) (UploadDestination0\<lparr>Status := StatusSkipUpload\<rparr>),
               [DecodeBody, HeadObjectCall (bucket s) (s3Path_of s meta)])) \<and>
         (\<forall>m1 st presign. s3Path_of s m1 = s3Path_of s meta \<longrightarrow>
            handleUploadRequest s
              (s3_of_store None (upload_completed st (bucket s) (s3Path_of s m1)) presign) w r =
              (Encode (WriteHeader w 409) (UploadDestination0\<lparr>Status := StatusSkipUpload\<rparr>),
               [DecodeBody, HeadObjectCall (bucket s) (s3Path_of s meta)]))"
  using assms
  by (simp add: handleUploadRequest_def s3_of_store_def upload_completed_def Let_def)

lemma found_object_skips_example:
  "ReqMethod ex_request = ''POST'' \<and> ReqBody ex_request = Inr ex_meta \<and>
   HeadObject (s3_of_store None (upload_completed {} ''photo-bucket'' (s3Path_of ex_server ex_meta)) ex_presign)
     (bucket ex_server) (s3Path_of ex_server ex_meta) = None \<and>
   handleUploadRequest ex_server
     (s3_of_store None (upload_completed {} ''photo-bucket'' (s3Path_of ex_server ex_meta)) ex_presign)
     ResponseWriter0 ex_request =
     (\<lparr>WHeader = [], WCode = Some 409,
       WBody = JsonBody \<lparr>Status = ''skip'', Error = [], URL = [], Method = [], Headers = []\<rparr>\<rparr>,
      [DecodeBody, HeadObjectCall ''photo-bucket'' ''photos/2021-03-04-05_06_07-0a1b-a.jpg''])"
proof -
  have a: "ReqMethod ex_request = ''POST''" and b: "ReqBody ex_request = Inr ex_meta"
    by simp_all
  have c: "HeadObject (s3_of_store None (upload_completed {} ''photo-bucket'' (s3Path_of ex_server ex_meta)) ex_presign)
     (bucket ex_server) (s3Path_of ex_server ex_meta) = None"
    by (simp add: s3_of_store_def upload_completed_def)
  from found_object_skips [OF a b, of "s3_of_store None (upload_completed {} ''photo-bucket'' (s3Path_of ex_server ex_meta)) ex_presign" ex_server ResponseWriter0] c
  show ?thesis
    using a b
    by (simp add: ex_s3Path Encode_def WriteHeader_def ResponseWriter0_def UploadDestination0_def
        StatusSkipUpload_def)
qed

text \<open>
  Claim C2 asks that a request whose store key already holds an object is answered
  \<^verbatim>\<open>skip\<close> and gets no capability, and that no second capability is issued for a key
  once its upload has completed. The handler does so only when the existence check
  itself succeeds. Here the upload to the key of the example metadata has completed,
  the object is in the store, and \<^verbatim>\<open>HeadObject\<close> fails because the request to the
  backend does not get through: the handler takes the error for "no such object",
  asks for a presigned put request for that very key and answers 200 with status
  \<^verbatim>\<open>ok\<close> and the capability. This is the defect of claim C1 seen from the store's
  side.
\<close>

theorem present_object_failed_check_mints:
  "(''photo-bucket'', ''photos/2021-03-04-05_06_07-0a1b-a.jpg'')
     \<in> upload_completed {} (bucket ex_server) (s3Path_of ex_server ex_meta) \<and>
   handleUploadRequest ex_server
     (s3_of_store (Some ''RequestError: send request failed'')
        (upload_completed {} (bucket ex_server) (s3Path_of ex_server ex_meta)) ex_presign)
     ResponseWriter0 ex_request =
     (\<lparr>WHeader = [], WCode = Some 200,
       WBody = JsonBody \<lparr>Status = ''ok'', Error = [],
         URL = ''https://s3.example/photos/2021-03-04-05_06_07-0a1b-a.jpg?X-Amz-Signature=1'',
         Method = ''PUT'',
         Headers = [(''Content-Length'', [''500000'']), (''Content-Type'', [''image/jpeg'']),
                    (''X-Amz-Meta-Filename'', [''a.jpg'']),
                    (''X-Amz-Meta-Mtime'', [''2021-03-04T05:06:07Z'']),
                    (''X-Amz-Meta-Test-Upload'', [''true''])]\<rparr>\<rparr>,
      [DecodeBody,
       HeadObjectCall ''photo-bucket'' ''photos/2021-03-04-05_06_07-0a1b-a.jpg'',
       PresignCall
         \<lparr>PutBucket = ''photo-bucket'', PutKey = ''photos/2021-03-04-05_06_07-0a1b-a.jpg'',
          PutContentLength = 500000, PutContentType = ''image/jpeg'',
          PutMetadata = [(''filename'', ''a.jpg''), (''mtime'', ''2021-03-04T05:06:07Z''),
                         (''test-upload'', ''true'')]\<rparr> 60])"
proof -
  have input: "putObjInput_of ex_server ex_meta =
      \<lparr>PutBucket = ''photo-bucket'', PutKey = ''photos/2021-03-04-05_06_07-0a1b-a.jpg'',
       PutContentLength = 500000, PutContentType = ''image/jpeg'',
       PutMetadata = [(''filename'', ''a.jpg''), (''mtime'', ''2021-03-04T05:06:07Z''),
                      (''test-upload'', ''true'')]\<rparr>"
    by (simp add: putObjInput_of_def Let_def ex_s3Path ex_RFC3339)
  have hdrs: "ok_headers ex_meta (putObjInput_of ex_server ex_meta) =
      [(''Content-Length'', [''500000'']), (''Content-Type'', [''image/jpeg'']),
       (''X-Amz-Meta-Filename'', [''a.jpg'']),
       (''X-Amz-Meta-Mtime'', [''2021-03-04T05:06:07Z'']),
       (''X-Amz-Meta-Test-Upload'', [''true''])]"
    by (simp add: ok_headers_eq ex_RFC3339 ex_Itoa)
  have "handleUploadRequest ex_server
     (s3_of_store (Some ''RequestError: send request failed'')
        (upload_completed {} (bucket ex_server) (s3Path_of ex_server ex_meta)) ex_presign)
     ResponseWriter0 ex_request =
     (Encode ResponseWriter0 (UploadDestination0\<lparr>Status := StatusOK,
         URL := ''https://s3.example/photos/2021-03-04-05_06_07-0a1b-a.jpg?X-Amz-Signature=1'',
         Method := ''PUT'', Headers := ok_headers ex_meta (putObjInput_of ex_server ex_meta)\<rparr>),
      [DecodeBody, HeadObjectCall ''photo-bucket'' ''photos/2021-03-04-05_06_07-0a1b-a.jpg'',
       PresignCall (putObjInput_of ex_server ex_meta) 60])"
    by (simp add: handleUploadRequest_def s3_of_store_def Let_def ex_s3Path ex_presign_def)
  then show ?thesis
    by (simp add: hdrs [unfolded input] input Encode_def WriteHeader_def ResponseWriter0_def UploadDestination0_def
        StatusOK_def upload_completed_def ex_s3Path)
qed

text \<open>
  The user name of the basic authentication takes no part in the answer.
\<close>

lemma username_ignored:
  "basicAuthMiddleware s cmp (handleUploadRequest s api) w (r\<lparr>ReqBasicAuth := Some (u, p)\<rparr>) =
   basicAuthMiddleware s cmp (handleUploadRequest s api) w (r\<lparr>ReqBasicAuth := Some (u', p)\<rparr>)"
  by (simp add: basicAuthMiddleware_def handleUploadRequest_def Let_def split: option.splits)

text \<open>
  Claim C9. A request without basic authentication, or whose password fails the
  comparison with the stored hash, is answered 401 with the text
  \<^verbatim>\<open>Not authorized\<close>; nothing of the wrapped handler runs, so the body is not decoded:
  the answer is the same for every wrapped handler and every body. The handler behind
  the middleware is reached only through the branch in which the comparison succeeded.
\<close>

theorem unauthorized_short_circuit:
  assumes "ReqBasicAuth r = None \<or>
           (\<exists>u p. ReqBasicAuth r = Some (u, p) \<and> cmp (bcryptPass s) p \<noteq> None)"
    and "WCode w = None"
  shows "StatusCode_of (fst (basicAuthMiddleware s cmp next w r)) = 401 \<and>
         WBody (fst (basicAuthMiddleware s cmp next w r)) = TextBody (''Not authorized'' @ [CHR 0x0A]) \<and>
         snd (basicAuthMiddleware s cmp next w r) = [] \<and>
         basicAuthMiddleware s cmp next' w (r\<lparr>ReqBody := b\<rparr>) = basicAuthMiddleware s cmp next w r"
  using assms
  by (auto simp: basicAuthMiddleware_def http_Error_def WriteHeader_def StatusCode_of_def Let_def
      split: option.splits)

text \<open>
  Claim C9, an instance: the example request with a wrong password.
\<close>

theorem unauthorized_short_circuit_witness:
  "ReqBasicAuth (ex_request\<lparr>ReqBasicAuth := Some (''alice'', ''guess'')\<rparr>) = Some (''alice'', ''guess'') \<and>
   ex_compare (bcryptPass ex_server) ''guess'' \<noteq> None \<and>
   WCode ResponseWriter0 = None \<and>
   StatusCode_of (fst (basicAuthMiddleware ex_server ex_compare
     (handleUploadRequest ex_server (s3_of_store None {} ex_presign)) ResponseWriter0
     (ex_request\<lparr>ReqBasicAuth := Some (''alice'', ''guess'')\<rparr>))) = 401 \<and>
   snd (basicAuthMiddleware ex_server ex_compare
     (handleUploadRequest ex_server (s3_of_store None {} ex_presign)) ResponseWriter0
     (ex_request\<lparr>ReqBasicAuth := Some (''alice'', ''guess'')\<rparr>)) = []"
proof -
  let ?r = "ex_request\<lparr>ReqBasicAuth := Some (''alice'', ''guess'')\<rparr>"
  have c: "ex_compare (bcryptPass ex_server) ''guess'' \<noteq> None"
    by (simp add: ex_compare_def)
  then have a: "ReqBasicAuth ?r = None \<or>
      (\<exists>u p. ReqBasicAuth ?r = Some (u, p) \<and> ex_compare (bcryptPass ex_server) p \<noteq> None)"
    by simp
  have f: "WCode ResponseWriter0 = None" by (simp add: ResponseWriter0_def)
  from unauthorized_short_circuit [of ?r ex_compare ex_server ResponseWriter0
      "handleUploadRequest ex_server (s3_of_store None {} ex_presign)"] a c f
  show ?thesis by simp
qed

section \<open>Properties of the batch client\<close>

lemma requestUploadURL_event:
  assumes "PostMetadata u c m \<in> set (snd (requestUploadURL cfg w i n ct mt sz))"
  shows "u = url cfg \<and> c = (username cfg, password cfg) \<and>
         m = \<lparr>ID = i, Name = n, Mtime = mt, Bytes = sz, ContentType = ct, TestUpload = True\<rparr> \<and>
         requestUploadURL cfg w i n ct mt sz =
           ((case coordinator w u c m of
               Inl err \<Rightarrow> Inl err
             | Inr resp \<Rightarrow>
                 if StatusCode resp \<noteq> 200 \<and> StatusCode resp \<noteq> 409
                 then Inl (''non-200 status code: '' @ Itoa (int (StatusCode resp)))
                 else RespBody resp),
            [PostMetadata u c m])"
  using assms
  by (auto simp: requestUploadURL_def Let_def split: option.splits sum.splits if_splits)

lemma uploadFile_events:
  "snd (uploadFile w r sz d) = [] \<or>
   snd (uploadFile w r sz d) = [PutFile (if Method d = [] then ''PUT'' else Method d) (URL d) (Headers d) sz r]"
  by (auto simp: uploadFile_def Let_def split: option.splits sum.splits if_splits)

lemma uploadFile_no_post: "PostMetadata u c m \<notin> set (snd (uploadFile w r sz d))"
  using uploadFile_events [of w r sz d] by auto


lemma uploadFile_no_post':
  "uploadFile w r sz d = (res, evs) \<Longrightarrow> PostMetadata u c m \<in> set evs \<Longrightarrow> False"
  using uploadFile_no_post [of u c m w r sz d] by simp

lemma process_file_post:
  assumes "PostMetadata u c m \<in> set (snd (process_file cfg w fe))"
  shows "\<exists>sz mt0.
     f_open_err fe = None \<and> f_copy_err fe = None \<and> f_stat fe = Inr (sz, mt0) \<and>
     Mtime m =
       (if SplitN (DetectContentType w (sniff_header (f_contents fe))) (CHR ''/'') 2 ! 0 = ''image''
        then (case readExifInfo w (f_exif fe) of Inl err \<Rightarrow> mt0 | Inr exif \<Rightarrow> ExifTime exif)
        else mt0) \<and>
     PostMetadata u c m \<in> set (snd (requestUploadURL cfg w (ID m) (Name m) (ContentType m) (Mtime m) (Bytes m))) \<and>
     process_file cfg w fe =
       (case requestUploadURL cfg w (ID m) (Name m) (ContentType m) (Mtime m) (Bytes m) of
          (Inl err, evs) \<Rightarrow> (Some err, evs)
        | (Inr dest, evs) \<Rightarrow>
            if Status dest = StatusSkipUpload
            then (f_rename_err fe,
                  evs @ [Rename (Join [pendingDir cfg, f_name fe]) (Join [doneDir cfg, f_name fe])])
            else (case uploadFile w (f_contents fe) (Bytes m) dest of
                    (Some err, evs2) \<Rightarrow> (Some err, evs @ evs2)
                  | (None, evs2) \<Rightarrow>
                      (f_rename_err fe,
                       evs @ evs2 @
                       [Rename (Join [pendingDir cfg, f_name fe]) (Join [doneDir cfg, f_name fe])])))"
proof -
  from assms obtain sz mt0 where ok: "f_open_err fe = None" "f_copy_err fe = None"
      "f_stat fe = Inr (sz, mt0)"
    by (auto simp: process_file_def Let_def split: option.splits sum.splits)
  define ct where "ct = DetectContentType w (sniff_header (f_contents fe))"
  define top where "top = SplitN ct (CHR ''/'') 2 ! 0"
  define mt where "mt = (if top = ''image''
                         then (case readExifInfo w (f_exif fe) of Inl err \<Rightarrow> mt0 | Inr exif \<Rightarrow> ExifTime exif)
                         else mt0)"
  define req where "req = requestUploadURL cfg w (sha256_hex w (f_contents fe)) (Base (f_name fe)) ct mt sz"
  have media: "\<not> (top \<noteq> ''image'' \<and> top \<noteq> ''audio'' \<and> top \<noteq> ''video'')"
    using assms ok by (auto simp: process_file_def Let_def ct_def top_def split: if_splits)
  have pf: "process_file cfg w fe =
       (case req of
          (Inl err, evs) \<Rightarrow> (Some err, evs)
        | (Inr dest, evs) \<Rightarrow>
            if Status dest = StatusSkipUpload
            then (f_rename_err fe,
                  evs @ [Rename (Join [pendingDir cfg, f_name fe]) (Join [doneDir cfg, f_name fe])])
            else (case uploadFile w (f_contents fe) sz dest of
                    (Some err, evs2) \<Rightarrow> (Some err, evs @ evs2)
                  | (None, evs2) \<Rightarrow>
                      (f_rename_err fe,
                       evs @ evs2 @
                       [Rename (Join [pendingDir cfg, f_name fe]) (Join [doneDir cfg, f_name fe])])))"
    using ok media
    by (auto simp: process_file_def Let_def ct_def top_def mt_def req_def)
  have "PostMetadata u c m \<in> set (snd req)"
    using assms unfolding pf
    by (auto split: prod.splits sum.splits if_splits option.splits dest: uploadFile_no_post')
  from requestUploadURL_event [OF this [unfolded req_def]]
  have m: "m = \<lparr>ID = sha256_hex w (f_contents fe), Name = Base (f_name fe), Mtime = mt,
                 Bytes = sz, ContentType = ct, TestUpload = True\<rparr>"
    by simp
  then have eqs: "ID m = sha256_hex w (f_contents fe)" "Name m = Base (f_name fe)"
      "ContentType m = ct" "Mtime m = mt" "Bytes m = sz"
    by simp_all
  have sent: "Mtime m =
       (if SplitN (DetectContentType w (sniff_header (f_contents fe))) (CHR ''/'') 2 ! 0 = ''image''
        then (case readExifInfo w (f_exif fe) of Inl err \<Rightarrow> mt0 | Inr exif \<Rightarrow> ExifTime exif)
        else mt0)"
    by (simp add: eqs mt_def top_def ct_def)
  from pf \<open>PostMetadata u c m \<in> set (snd req)\<close> ok sent show ?thesis
    unfolding eqs req_def by blast
qed

text \<open>
  The modification time the client sends: for an image the time \<^verbatim>\<open>readExifInfo\<close>
  returns when it returns without an error, and the file system's time otherwise.
\<close>

lemma mtime_sent:
  assumes "PostMetadata u c m \<in> set (snd (process_file cfg w fe))"
    and "f_stat fe = Inr (sz, mt0)"
  shows "Mtime m =
       (if SplitN (DetectContentType w (sniff_header (f_contents fe))) (CHR ''/'') 2 ! 0 = ''image''
        then (case readExifInfo w (f_exif fe) of Inl err \<Rightarrow> mt0 | Inr exif \<Rightarrow> ExifTime exif)
        else mt0)"
  using process_file_post [OF assms(1)] assms(2) by auto


text \<open>
  Claim C6. When the coordinator's answer to the metadata sent for a file is a decision
  with status \<^verbatim>\<open>skip\<close> (in a 200 or a 409 response), the client does exactly two
  things for the file: the request, and the rename of the file from the pending
  directory into the done directory. There is no upload, and the outcome for the file
  is the outcome of the rename.
\<close>

theorem skip_moves_without_upload:
  assumes "PostMetadata u c m \<in> set (snd (process_file cfg w fe))"
    and "coordinator w u c m = Inr reply"
    and "StatusCode reply = 200 \<or> StatusCode reply = 409"
    and "RespBody reply = Inr dest"
    and "Status dest = StatusSkipUpload"
  shows "process_file cfg w fe =
           (f_rename_err fe,
            [PostMetadata u c m,
             Rename (Join [pendingDir cfg, f_name fe]) (Join [doneDir cfg, f_name fe])])"
proof -
  from process_file_post [OF assms(1)] obtain sz mt0 where
    post: "PostMetadata u c m \<in> set (snd (requestUploadURL cfg w (ID m) (Name m) (ContentType m) (Mtime m) (Bytes m)))"
    and pf: "process_file cfg w fe =
       (case requestUploadURL cfg w (ID m) (Name m) (ContentType m) (Mtime m) (Bytes m) of
          (Inl err, evs) \<Rightarrow> (Some err, evs)
        | (Inr dest, evs) \<Rightarrow>
            if Status dest = StatusSkipUpload
            then (f_rename_err fe,
                  evs @ [Rename (Join [pendingDir cfg, f_name fe]) (Join [doneDir cfg, f_name fe])])
            else (case uploadFile w (f_contents fe) (Bytes m) dest of
                    (Some err, evs2) \<Rightarrow> (Some err, evs @ evs2)
                  | (None, evs2) \<Rightarrow>
                      (f_rename_err fe,
                       evs @ evs2 @
                       [Rename (Join [pendingDir cfg, f_name fe]) (Join [doneDir cfg, f_name fe])])))"
    by blast
  from requestUploadURL_event [OF post] assms(2-5)
  have "requestUploadURL cfg w (ID m) (Name m) (ContentType m) (Mtime m) (Bytes m) =
          (Inr dest, [PostMetadata u c m])"
    by auto
  with pf assms(5) show ?thesis by simp
qed

text \<open>
  Claim C7 as amended. For the metadata request of a file: a transport failure, a
  response whose status code is neither 2xx nor 409, and a 200 or 409 response whose
  body does not decode as a decision, each end the file with an error and the whole
  loop with it, no later file being touched. A decision with status \<^verbatim>\<open>skip\<close> is
  accepted from the body of a 200 response as well as of a 409 response, and the file
  is then renamed into the done directory without an upload. The status code 409 by
  itself is not read as a decision: the decision is what the body says.
\<close>

theorem request_errors_abort_batch:
  assumes "PostMetadata u c m \<in> set (snd (process_file cfg w fe))"
  shows "(((\<exists>e. coordinator w u c m = Inl e) \<or>
           (\<exists>reply. coordinator w u c m = Inr reply \<and>
              \<not> (200 \<le> StatusCode reply \<and> StatusCode reply < 300) \<and> StatusCode reply \<noteq> 409)) \<longrightarrow>
          (\<exists>e. process_file cfg w fe = (Some e, [PostMetadata u c m]) \<and>
               run_loop cfg w (fe # files) = (Some e, [PostMetadata u c m]))) \<and>
         (\<forall>reply e.
            coordinator w u c m = Inr reply \<and>
            (StatusCode reply = 200 \<or> StatusCode reply = 409) \<and>
            RespBody reply = Inl e \<longrightarrow>
            process_file cfg w fe = (Some e, [PostMetadata u c m]) \<and>
            run_loop cfg w (fe # files) = (Some e, [PostMetadata u c m])) \<and>
         (\<forall>reply dest.
            coordinator w u c m = Inr reply \<and>
            (StatusCode reply = 200 \<or> StatusCode reply = 409) \<and>
            RespBody reply = Inr dest \<and> Status dest = StatusSkipUpload \<longrightarrow>
            fst (requestUploadURL cfg w (ID m) (Name m) (ContentType m) (Mtime m) (Bytes m)) = Inr dest \<and>
            process_file cfg w fe =
              (f_rename_err fe,
               [PostMetadata u c m,
                Rename (Join [pendingDir cfg, f_name fe]) (Join [doneDir cfg, f_name fe])]))"
proof -
  from process_file_post [OF assms] obtain sz mt0 where
    post: "PostMetadata u c m \<in> set (snd (requestUploadURL cfg w (ID m) (Name m) (ContentType m) (Mtime m) (Bytes m)))"
    and pf: "process_file cfg w fe =
       (case requestUploadURL cfg w (ID m) (Name m) (ContentType m) (Mtime m) (Bytes m) of
          (Inl err, evs) \<Rightarrow> (Some err, evs)
        | (Inr dest, evs) \<Rightarrow>
            if Status dest = StatusSkipUpload
            then (f_rename_err fe,
                  evs @ [Rename (Join [pendingDir cfg, f_name fe]) (Join [doneDir cfg, f_name fe])])
            else (case uploadFile w (f_contents fe) (Bytes m) dest of
                    (Some err, evs2) \<Rightarrow> (Some err, evs @ evs2)
                  | (None, evs2) \<Rightarrow>
                      (f_rename_err fe,
                       evs @ evs2 @
                       [Rename (Join [pendingDir cfg, f_name fe]) (Join [doneDir cfg, f_name fe])])))"
    by blast
  note req = requestUploadURL_event [OF post]
  have bad: "\<exists>e. process_file cfg w fe = (Some e, [PostMetadata u c m]) \<and>
               run_loop cfg w (fe # files) = (Some e, [PostMetadata u c m])"
    if "(\<exists>e. coordinator w u c m = Inl e) \<or>
        (\<exists>reply. coordinator w u c m = Inr reply \<and>
           \<not> (200 \<le> StatusCode reply \<and> StatusCode reply < 300) \<and> StatusCode reply \<noteq> 409)"
  proof -
    from that req obtain e where
      "requestUploadURL cfg w (ID m) (Name m) (ContentType m) (Mtime m) (Bytes m) =
         (Inl e, [PostMetadata u c m])"
      by auto
    with pf have "process_file cfg w fe = (Some e, [PostMetadata u c m])" by simp
    then show ?thesis by simp
  qed
  have undecoded: "process_file cfg w fe = (Some e, [PostMetadata u c m]) \<and>
               run_loop cfg w (fe # files) = (Some e, [PostMetadata u c m])"
    if "coordinator w u c m = Inr reply" "StatusCode reply = 200 \<or> StatusCode reply = 409"
       "RespBody reply = Inl e" for reply e
  proof -
    from that req have
      "requestUploadURL cfg w (ID m) (Name m) (ContentType m) (Mtime m) (Bytes m) =
         (Inl e, [PostMetadata u c m])"
      by auto
    with pf have "process_file cfg w fe = (Some e, [PostMetadata u c m])" by simp
    then show ?thesis by simp
  qed
  have good: "fst (requestUploadURL cfg w (ID m) (Name m) (ContentType m) (Mtime m) (Bytes m)) = Inr dest \<and>
            process_file cfg w fe =
              (f_rename_err fe,
               [PostMetadata u c m,
                Rename (Join [pendingDir cfg, f_name fe]) (Join [doneDir cfg, f_name fe])])"
    if "coordinator w u c m = Inr reply" "StatusCode reply = 200 \<or> StatusCode reply = 409"
       "RespBody reply = Inr dest" "Status dest = StatusSkipUpload" for reply dest
  proof -
    from that req have
      "requestUploadURL cfg w (ID m) (Name m) (ContentType m) (Mtime m) (Bytes m) =
         (Inr dest, [PostMetadata u c m])"
      by auto
    with pf that(4) show ?thesis by simp
  qed
  from bad undecoded good show ?thesis by blast
qed

lemma process_file_test_upload:
  assumes "PostMetadata u c m \<in> set (snd (process_file cfg w fe))"
  shows "TestUpload m"
proof -
  from process_file_post [OF assms] have
    "PostMetadata u c m \<in> set (snd (requestUploadURL cfg w (ID m) (Name m) (ContentType m) (Mtime m) (Bytes m)))"
    by blast
  from requestUploadURL_event [OF this] have
    "m = \<lparr>ID = ID m, Name = Name m, Mtime = Mtime m, Bytes = Bytes m,
          ContentType = ContentType m, TestUpload = True\<rparr>"
    by blast
  then have "TestUpload m = TestUpload \<lparr>ID = ID m, Name = Name m, Mtime = Mtime m, Bytes = Bytes m,
          ContentType = ContentType m, TestUpload = True\<rparr>"
    by simp
  then show ?thesis by simp
qed

lemma run_loop_events:
  "ev \<in> set (snd (run_loop cfg w files)) \<Longrightarrow> \<exists>fe. ev \<in> set (snd (process_file cfg w fe))"
proof (induction files)
  case Nil
  then show ?case by simp
next
  case (Cons fe files)
  obtain r evs where pf: "process_file cfg w fe = (r, evs)" by force
  obtain r' evs' where rl: "run_loop cfg w files = (r', evs')" by force
  show ?case
  proof (cases r)
    case None
    with pf rl Cons.prems have "ev \<in> set evs \<or> ev \<in> set evs'" by auto
    then show ?thesis
    proof
      assume "ev \<in> set evs"
      with pf have "ev \<in> set (snd (process_file cfg w fe))" by simp
      then show ?thesis by blast
    next
      assume "ev \<in> set evs'"
      with rl Cons.IH show ?thesis by simp
    qed
  next
    case (Some e)
    with pf Cons.prems have "ev \<in> set (snd (process_file cfg w fe))" by simp
    then show ?thesis by blast
  qed
qed

lemma run_events:
  "ev \<in> set (snd (run cfg w)) \<Longrightarrow> \<exists>fe. ev \<in> set (snd (process_file cfg w fe))"
  by (auto simp: run_def dest: run_loop_events split: if_splits sum.splits option.splits)

lemma requestUploadURL_Inr:
  assumes "requestUploadURL cfg w i n ct mt sz = (Inr dest, evs)"
  shows "\<exists>reply. evs = [PostMetadata (url cfg) (username cfg, password cfg)
                    \<lparr>ID = i, Name = n, Mtime = mt, Bytes = sz, ContentType = ct, TestUpload = True\<rparr>] \<and>
           coordinator w (url cfg) (username cfg, password cfg)
             \<lparr>ID = i, Name = n, Mtime = mt, Bytes = sz, ContentType = ct, TestUpload = True\<rparr> = Inr reply \<and>
           (StatusCode reply = 200 \<or> StatusCode reply = 409) \<and> RespBody reply = Inr dest"
  using assms
  by (auto simp: requestUploadURL_def Let_def split: option.splits sum.splits if_splits)

lemma requestUploadURL_no_put:
  "PutFile mth u' h sz b \<notin> set (snd (requestUploadURL cfg w i n ct mt sz'))"
  by (auto simp: requestUploadURL_def Let_def split: option.splits sum.splits if_splits)

lemma process_file_shape:
  "(\<exists>r. process_file cfg w fe = (r, [])) \<or>
   (\<exists>i n ct mt sz.
      process_file cfg w fe =
       (case requestUploadURL cfg w i n ct mt sz of
          (Inl err, evs) \<Rightarrow> (Some err, evs)
        | (Inr dest, evs) \<Rightarrow>
            if Status dest = StatusSkipUpload
            then (f_rename_err fe,
                  evs @ [Rename (Join [pendingDir cfg, f_name fe]) (Join [doneDir cfg, f_name fe])])
            else (case uploadFile w (f_contents fe) sz dest of
                    (Some err, evs2) \<Rightarrow> (Some err, evs @ evs2)
                  | (None, evs2) \<Rightarrow>
                      (f_rename_err fe,
                       evs @ evs2 @
                       [Rename (Join [pendingDir cfg, f_name fe]) (Join [doneDir cfg, f_name fe])]))))"
proof (cases "f_open_err fe")
  case (Some e)
  then show ?thesis by (simp add: process_file_def Let_def)
next
  case op: None
  show ?thesis
  proof (cases "f_copy_err fe")
    case (Some e)
    with op show ?thesis by (simp add: process_file_def Let_def)
  next
    case cp: None
    show ?thesis
    proof (cases "f_stat fe")
      case (Inl e)
      with op cp show ?thesis by (simp add: process_file_def Let_def)
    next
      case (Inr p)
      obtain sz mt0 where p: "p = (sz, mt0)" by (cases p)
      define top where "top = SplitN (DetectContentType w (sniff_header (f_contents fe))) (CHR ''/'') 2 ! 0"
      show ?thesis
      proof (cases "top \<noteq> ''image'' \<and> top \<noteq> ''audio'' \<and> top \<noteq> ''video''")
        case True
        with op cp Inr p show ?thesis by (simp add: process_file_def Let_def top_def)
      next
        case False
        with op cp Inr p show ?thesis
          unfolding process_file_def Let_def top_def
          by (intro disjI2) (simp only: option.case sum.case prod.case if_False, blast)
      qed
    qed
  qed
qed

lemma process_file_put:
  assumes "PutFile mth u' h sz b \<in> set (snd (process_file cfg w fe))"
  shows "\<exists>u c m reply dest. TestUpload m \<and> coordinator w u c m = Inr reply \<and>
           (StatusCode reply = 200 \<or> StatusCode reply = 409) \<and> RespBody reply = Inr dest \<and>
           Status dest \<noteq> StatusSkipUpload \<and> h = Headers dest"
proof -
  from process_file_shape [of cfg w fe] assms obtain i n ct mt sz' where
    pf: "process_file cfg w fe =
       (case requestUploadURL cfg w i n ct mt sz' of
          (Inl err, evs) \<Rightarrow> (Some err, evs)
        | (Inr dest, evs) \<Rightarrow>
            if Status dest = StatusSkipUpload
            then (f_rename_err fe,
                  evs @ [Rename (Join [pendingDir cfg, f_name fe]) (Join [doneDir cfg, f_name fe])])
            else (case uploadFile w (f_contents fe) sz' dest of
                    (Some err, evs2) \<Rightarrow> (Some err, evs @ evs2)
                  | (None, evs2) \<Rightarrow>
                      (f_rename_err fe,
                       evs @ evs2 @
                       [Rename (Join [pendingDir cfg, f_name fe]) (Join [doneDir cfg, f_name fe])])))"
    by auto
  obtain res evs where req: "requestUploadURL cfg w i n ct mt sz' = (res, evs)" by force
  have np: "PutFile mth u' h sz b \<notin> set evs"
    using requestUploadURL_no_put [of mth u' h sz b cfg w i n ct mt sz'] req by simp
  from assms pf req np obtain dest where
    dest: "res = Inr dest" "Status dest \<noteq> StatusSkipUpload"
      "PutFile mth u' h sz b \<in> set (snd (uploadFile w (f_contents fe) sz' dest))"
    by (cases res; cases "uploadFile w (f_contents fe) sz' (projr res)";
        cases "fst (uploadFile w (f_contents fe) sz' (projr res))")
       (auto split: if_splits)
  from requestUploadURL_Inr [OF req [unfolded dest(1)]] obtain reply where
    r: "coordinator w (url cfg) (username cfg, password cfg)
             \<lparr>ID = i, Name = n, Mtime = mt, Bytes = sz', ContentType = ct, TestUpload = True\<rparr> = Inr reply"
      "StatusCode reply = 200 \<or> StatusCode reply = 409" "RespBody reply = Inr dest"
    by blast
  from dest(3) uploadFile_events [of w "f_contents fe" sz' dest] have "h = Headers dest" by auto
  with r dest(2) show ?thesis
    by (intro exI [of _ "url cfg"] exI [of _ "(username cfg, password cfg)"]
        exI [of _ "\<lparr>ID = i, Name = n, Mtime = mt, Bytes = sz', ContentType = ct, TestUpload = True\<rparr>"]
        exI [of _ reply] exI [of _ dest]) simp
qed

lemma coordinator_service_headers:
  assumes "coordinator_service s api cmp u c m = Inr reply"
    and "RespBody reply = Inr d" and "Status d \<noteq> StatusSkipUpload"
    and "StatusCode reply = 200 \<or> StatusCode reply = 409"
  shows "Status d = StatusOK \<and> Headers d = ok_headers m (putObjInput_of s m)"
  using assms
  by (auto simp: coordinator_service_def basicAuthMiddleware_def handleUploadRequest_def
      http_Error_def Encode_def WriteHeader_def ResponseWriter0_def decode_body_def Let_def
      UploadDestination0_def StatusCode_of_def
      split: option.splits sum.splits if_splits prod.splits)

text \<open>
  Claim C10. Every metadata the batch client sends has \<^verbatim>\<open>TestUpload\<close> set; and when
  the coordinator is the one of this repository, every upload request the client
  issues carries the header \<^verbatim>\<open>X-Amz-Meta-Test-Upload: true\<close>, which the store keeps
  as the object's \<^verbatim>\<open>test-upload\<close> attribute.
\<close>

theorem client_marks_every_upload_test:
  "(PostMetadata u c m \<in> set (snd (run cfg w)) \<longrightarrow> TestUpload m) \<and>
   (coordinator w = coordinator_service s api cmp \<longrightarrow>
    PutFile mth u' h sz b \<in> set (snd (run cfg w)) \<longrightarrow>
    map_of h ''X-Amz-Meta-Test-Upload'' = Some [''true''])"
proof (intro conjI impI)
  assume "PostMetadata u c m \<in> set (snd (run cfg w))"
  then obtain fe where "PostMetadata u c m \<in> set (snd (process_file cfg w fe))"
    using run_events by blast
  then show "TestUpload m" by (rule process_file_test_upload)
next
  assume svc: "coordinator w = coordinator_service s api cmp"
    and "PutFile mth u' h sz b \<in> set (snd (run cfg w))"
  then obtain fe where "PutFile mth u' h sz b \<in> set (snd (process_file cfg w fe))"
    using run_events by blast
  from process_file_put [OF this] obtain u0 c0 m0 reply dest where
    d: "TestUpload m0" "coordinator w u0 c0 m0 = Inr reply"
       "StatusCode reply = 200 \<or> StatusCode reply = 409" "RespBody reply = Inr dest"
       "Status dest \<noteq> StatusSkipUpload" "h = Headers dest"
    by blast
  from d(2) svc have "coordinator_service s api cmp u0 c0 m0 = Inr reply" by simp
  from coordinator_service_headers [OF this d(4,5,3)] d(6)
  have "h = ok_headers m0 (putObjInput_of s m0)" by simp
  with d(1) show "map_of h ''X-Amz-Meta-Test-Upload'' = Some [''true'']"
    by (simp add: ok_headers_eq)
qed

lemma SplitN_2:
  "SplitN s c 2 = (if c \<notin> set s then [s]
                   else [takeWhile (\<lambda>x. x \<noteq> c) s, tl (dropWhile (\<lambda>x. x \<noteq> c) s)])"
  by (simp add: numeral_2_eq_2)

lemma ex_entry_fields [simp]:
  "f_name ex_entry = ''a.jpg''" "f_open_err ex_entry = None" "f_contents ex_entry = [0xFF, 0xD8, 0xFF]"
  "f_copy_err ex_entry = None" "f_stat ex_entry = Inr (3, ex_time)"
  "f_exif ex_entry = Tags [(''Make'', ''Canon'')] None" "f_rename_err ex_entry = None"
  by (simp_all add: ex_entry_def)

lemma ex_config_fields [simp]:
  "url ex_config = ''https://coordinator.example/upload_request''" "username ex_config = ''alice''"
  "password ex_config = ''secret''" "pendingDir ex_config = ''pending''" "doneDir ex_config = ''done''"
  by (simp_all add: ex_config_def)

lemma ex_world_fields [simp]:
  "ReadDir (ex_world ct co) d = Inr [ex_entry]" "MkdirAll (ex_world ct co) d = None"
  "sha256_hex (ex_world ct co) bs = ''0a1b''" "DetectContentType (ex_world ct co) bs = ct"
  "NewRequest_err (ex_world ct co) mth u = None" "coordinator (ex_world ct co) = co"
  "store_Do (ex_world ct co) mth u h n bs = Inr (200, [])"
  "time_Parse (ex_world ct co) l v =
     (if v = ''2020:01:01 00:00:00''
      then Inr (ex_time\<lparr>Year := 2020, Month := 1, Day := 1, Hour := 0,
                         Minute := 0, Second := 0, Nanosecond := 0\<rparr>)
      else Inl ''parsing time: month out of range'')"
  by (simp_all add: ex_world_def)

lemma ex_paths [simp]:
  "Join [''pending'', ''a.jpg''] = ''pending/a.jpg''" "Join [''done'', ''a.jpg''] = ''done/a.jpg''"
  "Base ''a.jpg'' = ''a.jpg''"
  by (simp_all add: eval_path Base_def)

lemma ex_Marshal [simp]:
  "Marshal_err \<lparr>ID = i, Name = n, Mtime = ex_time, Bytes = b, ContentType = ct, TestUpload = t\<rparr> = None"
  "Marshal_err \<lparr>ID = i, Name = n, Mtime = zero_Time, Bytes = b, ContentType = ct, TestUpload = t\<rparr> = None"
  by (simp_all add: Marshal_err_def ex_time_def zero_Time_def)


lemma ex_request_video:
  "requestUploadURL ex_config (ex_world ''video/mp4'' (ex_reply code st)) ''0a1b'' ''a.jpg'' ''video/mp4'' ex_time 3 =
     (if code \<noteq> 200 \<and> code \<noteq> 409 then Inl (''non-200 status code: '' @ Itoa (int code))
      else Inr (UploadDestination0\<lparr>Status := st\<rparr>),
      [PostMetadata ''https://coordinator.example/upload_request'' (''alice'', ''secret'') ex_video_meta])"
  by (simp add: requestUploadURL_def Let_def ex_reply_def ex_video_meta_def)

lemma ex_process_video_skip:
  "process_file ex_config (ex_world ''video/mp4'' (ex_reply 409 ''skip'')) ex_entry =
     (None, [PostMetadata ''https://coordinator.example/upload_request'' (''alice'', ''secret'') ex_video_meta,
             Rename ''pending/a.jpg'' ''done/a.jpg''])"
  by (simp add: process_file_def Let_def SplitN_2 ex_request_video StatusSkipUpload_def
      UploadDestination0_def)

lemma ex_process_video_500:
  "snd (process_file ex_config (ex_world ''video/mp4'' (ex_reply 500 ''error'')) ex_entry) =
     [PostMetadata ''https://coordinator.example/upload_request'' (''alice'', ''secret'') ex_video_meta]"
  by (simp add: process_file_def Let_def SplitN_2 ex_request_video)


text \<open>
  Claim C6, an instance: a video for which the coordinator answers 409 with status
  \<^verbatim>\<open>skip\<close>.
\<close>

theorem skip_moves_without_upload_witness:
  "PostMetadata ''https://coordinator.example/upload_request'' (''alice'', ''secret'') ex_video_meta
     \<in> set (snd (process_file ex_config (ex_world ''video/mp4'' (ex_reply 409 ''skip'')) ex_entry)) \<and>
   coordinator (ex_world ''video/mp4'' (ex_reply 409 ''skip''))
     ''https://coordinator.example/upload_request'' (''alice'', ''secret'') ex_video_meta =
     Inr \<lparr>StatusCode = 409, RespBody = Inr (UploadDestination0\<lparr>Status := StatusSkipUpload\<rparr>)\<rparr> \<and>
   process_file ex_config (ex_world ''video/mp4'' (ex_reply 409 ''skip'')) ex_entry =
     (None, [PostMetadata ''https://coordinator.example/upload_request'' (''alice'', ''secret'') ex_video_meta,
             Rename ''pending/a.jpg'' ''done/a.jpg''])"
proof -
  let ?w = "ex_world ''video/mp4'' (ex_reply 409 ''skip'')"
  let ?u = "''https://coordinator.example/upload_request''"
  let ?reply = "\<lparr>StatusCode = 409, RespBody = Inr (UploadDestination0\<lparr>Status := StatusSkipUpload\<rparr>)\<rparr>"
  have post: "PostMetadata ?u (''alice'', ''secret'') ex_video_meta
      \<in> set (snd (process_file ex_config ?w ex_entry))"
    by (simp add: ex_process_video_skip)
  have co: "coordinator ?w ?u (''alice'', ''secret'') ex_video_meta = Inr ?reply"
    by (simp add: ex_reply_def StatusSkipUpload_def)
  have sc: "StatusCode ?reply = 200 \<or> StatusCode ?reply = 409" by simp
  have rb: "RespBody ?reply = Inr (UploadDestination0\<lparr>Status := StatusSkipUpload\<rparr>)" by simp
  have st: "Status (UploadDestination0\<lparr>Status := StatusSkipUpload\<rparr>) = StatusSkipUpload"
    by (simp add: UploadDestination0_def)
  from skip_moves_without_upload [OF post co sc rb st] post co show ?thesis by simp
qed

lemma ex_process_video_no_body:
  "process_file ex_config (ex_world ''video/mp4'' (ex_reply_no_body code)) ex_entry =
     (Some (if code \<noteq> 200 \<and> code \<noteq> 409 then ''non-200 status code: '' @ Itoa (int code) else ''EOF''),
      [PostMetadata ''https://coordinator.example/upload_request'' (''alice'', ''secret'') ex_video_meta])"
  by (simp add: process_file_def Let_def SplitN_2 requestUploadURL_def ex_reply_no_body_def
      ex_video_meta_def)

lemma ex_process_video_409_ok:
  "process_file ex_config (ex_world ''video/mp4'' (ex_reply 409 ''ok'')) ex_entry =
     (None,
      [PostMetadata ''https://coordinator.example/upload_request'' (''alice'', ''secret'') ex_video_meta,
       PutFile ''PUT'' [] [] 3 [0xFF, 0xD8, 0xFF],
       Rename ''pending/a.jpg'' ''done/a.jpg''])"
  by (simp add: process_file_def Let_def SplitN_2 ex_request_video StatusSkipUpload_def
      UploadDestination0_def uploadFile_def)

text \<open>
  Claim C7 says that a skip delivered "via a 409 response" is accepted. A 409 response
  with an empty body is not: decoding it fails with \<^verbatim>\<open>EOF\<close>, the loop stops at the
  file, the file is not renamed and the second file of the listing is not touched.
  And a 409 response whose body carries status \<^verbatim>\<open>ok\<close> is followed by an upload.
\<close>

theorem conflict_status_alone_is_no_skip:
  "coordinator (ex_world ''video/mp4'' (ex_reply_no_body 409))
     ''https://coordinator.example/upload_request'' (''alice'', ''secret'') ex_video_meta =
     Inr \<lparr>StatusCode = 409, RespBody = Inl ''EOF''\<rparr> \<and>
   run_loop ex_config (ex_world ''video/mp4'' (ex_reply_no_body 409)) [ex_entry, ex_entry] =
     (Some ''EOF'',
      [PostMetadata ''https://coordinator.example/upload_request'' (''alice'', ''secret'') ex_video_meta]) \<and>
   process_file ex_config (ex_world ''video/mp4'' (ex_reply 409 ''ok'')) ex_entry =
     (None,
      [PostMetadata ''https://coordinator.example/upload_request'' (''alice'', ''secret'') ex_video_meta,
       PutFile ''PUT'' [] [] 3 [0xFF, 0xD8, 0xFF],
       Rename ''pending/a.jpg'' ''done/a.jpg''])"
  by (simp add: ex_process_video_no_body ex_process_video_409_ok ex_reply_no_body_def)

text \<open>
  Claim C7 as amended, three instances: a 500 answer aborts a listing of two files at
  the first, a 200 answer without a body does the same, and a 409 answer carrying
  status \<^verbatim>\<open>skip\<close> is accepted and the file renamed.
\<close>

theorem request_errors_abort_batch_witness:
  "PostMetadata ''https://coordinator.example/upload_request'' (''alice'', ''secret'') ex_video_meta
     \<in> set (snd (process_file ex_config (ex_world ''video/mp4'' (ex_reply 500 ''error'')) ex_entry)) \<and>
   coordinator (ex_world ''video/mp4'' (ex_reply 500 ''error''))
     ''https://coordinator.example/upload_request'' (''alice'', ''secret'') ex_video_meta =
     Inr \<lparr>StatusCode = 500, RespBody = Inr (UploadDestination0\<lparr>Status := ''error''\<rparr>)\<rparr> \<and>
   (\<exists>e. run_loop ex_config (ex_world ''video/mp4'' (ex_reply 500 ''error'')) [ex_entry, ex_entry] =
          (Some e, [PostMetadata ''https://coordinator.example/upload_request'' (''alice'', ''secret'')
                      ex_video_meta])) \<and>
   PostMetadata ''https://coordinator.example/upload_request'' (''alice'', ''secret'') ex_video_meta
     \<in> set (snd (process_file ex_config (ex_world ''video/mp4'' (ex_reply_no_body 200)) ex_entry)) \<and>
   coordinator (ex_world ''video/mp4'' (ex_reply_no_body 200))
     ''https://coordinator.example/upload_request'' (''alice'', ''secret'') ex_video_meta =
     Inr \<lparr>StatusCode = 200, RespBody = Inl ''EOF''\<rparr> \<and>
   run_loop ex_config (ex_world ''video/mp4'' (ex_reply_no_body 200)) [ex_entry, ex_entry] =
     (Some ''EOF'', [PostMetadata ''https://coordinator.example/upload_request'' (''alice'', ''secret'')
                       ex_video_meta]) \<and>
   PostMetadata ''https://coordinator.example/upload_request'' (''alice'', ''secret'') ex_video_meta
     \<in> set (snd (process_file ex_config (ex_world ''video/mp4'' (ex_reply 409 ''skip'')) ex_entry)) \<and>
   fst (requestUploadURL ex_config (ex_world ''video/mp4'' (ex_reply 409 ''skip''))
          ''0a1b'' ''a.jpg'' ''video/mp4'' ex_time 3) = Inr (UploadDestination0\<lparr>Status := StatusSkipUpload\<rparr>) \<and>
   process_file ex_config (ex_world ''video/mp4'' (ex_reply 409 ''skip'')) ex_entry =
     (None, [PostMetadata ''https://coordinator.example/upload_request'' (''alice'', ''secret'') ex_video_meta,
             Rename ''pending/a.jpg'' ''done/a.jpg''])"
proof -
  let ?w = "ex_world ''video/mp4'' (ex_reply 500 ''error'')"
  let ?w' = "ex_world ''video/mp4'' (ex_reply 409 ''skip'')"
  let ?w'' = "ex_world ''video/mp4'' (ex_reply_no_body 200)"
  let ?u = "''https://coordinator.example/upload_request''"
  let ?reply = "\<lparr>StatusCode = 500, RespBody = Inr (UploadDestination0\<lparr>Status := ''error''\<rparr>)\<rparr>"
  let ?reply' = "\<lparr>StatusCode = 409, RespBody = Inr (UploadDestination0\<lparr>Status := StatusSkipUpload\<rparr>)\<rparr>"
  let ?reply'' = "\<lparr>StatusCode = 200, RespBody = Inl ''EOF'' :: string + UploadDestination\<rparr>"
  have post: "PostMetadata ?u (''alice'', ''secret'') ex_video_meta
      \<in> set (snd (process_file ex_config ?w ex_entry))"
    by (simp add: ex_process_video_500)
  have co: "coordinator ?w ?u (''alice'', ''secret'') ex_video_meta = Inr ?reply"
    by (simp add: ex_reply_def)
  have post': "PostMetadata ?u (''alice'', ''secret'') ex_video_meta
      \<in> set (snd (process_file ex_config ?w' ex_entry))"
    by (simp add: ex_process_video_skip)
  have co': "coordinator ?w' ?u (''alice'', ''secret'') ex_video_meta = Inr ?reply'"
    by (simp add: ex_reply_def StatusSkipUpload_def)
  have st': "Status (UploadDestination0\<lparr>Status := StatusSkipUpload\<rparr>) = StatusSkipUpload"
    by (simp add: UploadDestination0_def)
  have post'': "PostMetadata ?u (''alice'', ''secret'') ex_video_meta
      \<in> set (snd (process_file ex_config ?w'' ex_entry))"
    by (simp add: ex_process_video_no_body)
  have co'': "coordinator ?w'' ?u (''alice'', ''secret'') ex_video_meta = Inr ?reply''"
    by (simp add: ex_reply_no_body_def)
  from request_errors_abort_batch [OF post, of "[ex_entry]"] co
  have 1: "\<exists>e. run_loop ex_config ?w [ex_entry, ex_entry] =
          (Some e, [PostMetadata ?u (''alice'', ''secret'') ex_video_meta])"
    by auto
  from request_errors_abort_batch [OF post', of "[]"] co' st'
  have 2: "fst (requestUploadURL ex_config ?w' (ID ex_video_meta) (Name ex_video_meta)
      (ContentType ex_video_meta) (Mtime ex_video_meta) (Bytes ex_video_meta)) =
      Inr (UploadDestination0\<lparr>Status := StatusSkipUpload\<rparr>) \<and>
      process_file ex_config ?w' ex_entry =
        (f_rename_err ex_entry,
         [PostMetadata ?u (''alice'', ''secret'') ex_video_meta,
          Rename (Join [pendingDir ex_config, f_name ex_entry]) (Join [doneDir ex_config, f_name ex_entry])])"
    by simp
  from request_errors_abort_batch [OF post'', of "[ex_entry]"] co''
  have 3: "run_loop ex_config ?w'' [ex_entry, ex_entry] =
          (Some ''EOF'', [PostMetadata ?u (''alice'', ''secret'') ex_video_meta])"
    by simp
  from post co 1 post' 2 post'' co'' 3 show ?thesis by (simp add: ex_video_meta_def)
qed

lemma ex_video_meta_fields [simp]:
  "ID ex_video_meta = ''0a1b''" "Name ex_video_meta = ''a.jpg''" "Mtime ex_video_meta = ex_time"
  "Bytes ex_video_meta = 3" "ContentType ex_video_meta = ''video/mp4''" "TestUpload ex_video_meta"
  by (simp_all add: ex_video_meta_def)

lemma s3Path_of_fields:
  "ID m = ID m' \<Longrightarrow> Name m = Name m' \<Longrightarrow> Mtime m = Mtime m' \<Longrightarrow> s3Path_of s m = s3Path_of s m'"
  by (simp add: s3Path_of_def)

lemma ex_video_s3Path: "s3Path_of ex_server ex_video_meta = ''photos/2021-03-04-05_06_07-0a1b-a.jpg''"
  using s3Path_of_fields [of ex_video_meta ex_meta ex_server] by (simp add: ex_s3Path)

lemma ex_service_reply:
  "coordinator_service ex_server (s3_of_store None {} ex_presign) ex_compare u (''alice'', ''secret'') ex_video_meta =
     Inr \<lparr>StatusCode = 200,
          RespBody = Inr \<lparr>Status = ''ok'', Error = [],
            URL = ''https://s3.example/photos/2021-03-04-05_06_07-0a1b-a.jpg?X-Amz-Signature=1'',
            Method = ''PUT'',
            Headers = [(''Content-Length'', [''3'']), (''Content-Type'', [''video/mp4'']),
                       (''X-Amz-Meta-Filename'', [''a.jpg'']),
                       (''X-Amz-Meta-Mtime'', [''2021-03-04T05:06:07Z'']),
                       (''X-Amz-Meta-Test-Upload'', [''true''])]\<rparr>\<rparr>"
  by (simp add: coordinator_service_def basicAuthMiddleware_def handleUploadRequest_def Let_def
      ex_compare_def s3_of_store_def ex_presign_def ex_video_s3Path Encode_def WriteHeader_def
      ResponseWriter0_def StatusCode_of_def decode_body_def ok_headers_eq ex_RFC3339
      UploadDestination0_def StatusOK_def Header_Set_def canonical_keys Itoa_def dec.simps
      digit_char_def)

lemma ex_run_video:
  "run ex_config (ex_world ''video/mp4'' (coordinator_service ex_server (s3_of_store None {} ex_presign) ex_compare)) =
     (None,
      [PostMetadata ''https://coordinator.example/upload_request'' (''alice'', ''secret'') ex_video_meta,
       PutFile ''PUT'' ''https://s3.example/photos/2021-03-04-05_06_07-0a1b-a.jpg?X-Amz-Signature=1''
         [(''Content-Length'', [''3'']), (''Content-Type'', [''video/mp4'']),
          (''X-Amz-Meta-Filename'', [''a.jpg'']),
          (''X-Amz-Meta-Mtime'', [''2021-03-04T05:06:07Z'']),
          (''X-Amz-Meta-Test-Upload'', [''true''])]
         3 [0xFF, 0xD8, 0xFF],
       Rename ''pending/a.jpg'' ''done/a.jpg''])"
proof -
  have m: "\<lparr>ID = ''0a1b'', Name = ''a.jpg'', Mtime = ex_time, Bytes = 3,
            ContentType = ''video/mp4'', TestUpload = True\<rparr> = ex_video_meta"
    by (simp add: ex_video_meta_def)
  show ?thesis
    by (simp add: run_def process_file_def Let_def SplitN_2 requestUploadURL_def m ex_service_reply
        uploadFile_def StatusSkipUpload_def)
qed

text \<open>
  Claim C10, an instance: one video, uploaded through the coordinator of this
  repository over an empty store.
\<close>

theorem client_marks_every_upload_test_witness:
  "PostMetadata ''https://coordinator.example/upload_request'' (''alice'', ''secret'') ex_video_meta
     \<in> set (snd (run ex_config (ex_world ''video/mp4''
           (coordinator_service ex_server (s3_of_store None {} ex_presign) ex_compare)))) \<and>
   TestUpload ex_video_meta \<and>
   PutFile ''PUT'' ''https://s3.example/photos/2021-03-04-05_06_07-0a1b-a.jpg?X-Amz-Signature=1''
         [(''Content-Length'', [''3'']), (''Content-Type'', [''video/mp4'']),
          (''X-Amz-Meta-Filename'', [''a.jpg'']),
          (''X-Amz-Meta-Mtime'', [''2021-03-04T05:06:07Z'']),
          (''X-Amz-Meta-Test-Upload'', [''true''])]
         3 [0xFF, 0xD8, 0xFF]
     \<in> set (snd (run ex_config (ex_world ''video/mp4''
           (coordinator_service ex_server (s3_of_store None {} ex_presign) ex_compare)))) \<and>
   map_of [(''Content-Length'', [''3'']), (''Content-Type'', [''video/mp4'']),
          (''X-Amz-Meta-Filename'', [''a.jpg'']),
          (''X-Amz-Meta-Mtime'', [''2021-03-04T05:06:07Z'']),
          (''X-Amz-Meta-Test-Upload'', [''true''])] ''X-Amz-Meta-Test-Upload'' = Some [''true'']"
proof -
  let ?w = "ex_world ''video/mp4'' (coordinator_service ex_server (s3_of_store None {} ex_presign) ex_compare)"
  let ?h = "[(''Content-Length'', [''3'']), (''Content-Type'', [''video/mp4'']),
          (''X-Amz-Meta-Filename'', [''a.jpg'']),
          (''X-Amz-Meta-Mtime'', [''2021-03-04T05:06:07Z'']),
          (''X-Amz-Meta-Test-Upload'', [''true''])]"
  have post: "PostMetadata ''https://coordinator.example/upload_request'' (''alice'', ''secret'') ex_video_meta
     \<in> set (snd (run ex_config ?w))"
    and put: "PutFile ''PUT'' ''https://s3.example/photos/2021-03-04-05_06_07-0a1b-a.jpg?X-Amz-Signature=1''
         ?h 3 [0xFF, 0xD8, 0xFF] \<in> set (snd (run ex_config ?w))"
    by (simp_all add: ex_run_video)
  have svc: "coordinator ?w = coordinator_service ex_server (s3_of_store None {} ex_presign) ex_compare"
    by simp
  note inst = client_marks_every_upload_test [of
      "''https://coordinator.example/upload_request''" "(''alice'', ''secret'')" ex_video_meta
      ex_config ?w ex_server "s3_of_store None {} ex_presign" ex_compare
      "''PUT''" "''https://s3.example/photos/2021-03-04-05_06_07-0a1b-a.jpg?X-Amz-Signature=1''"
      ?h 3 "[0xFF, 0xD8, 0xFF]"]
  from inst post have "TestUpload ex_video_meta" by blast
  moreover from inst svc put have "map_of ?h ''X-Amz-Meta-Test-Upload'' = Some [''true'']" by blast
  ultimately show ?thesis using post put by blast
qed

text \<open>
  Claim C8 asks that a failed extraction of the capture time leaves the file system's
  modification time in the metadata. \<^verbatim>\<open>readExifInfo\<close> reports no error when the EXIF
  data has no \<^verbatim>\<open>DateTime\<close> tag, and none when the tag's text does not parse (the
  error of \<^verbatim>\<open>time.Parse\<close> is dropped); its \<^verbatim>\<open>Time\<close> is then the zero time, and
  that is what \<^verbatim>\<open>run\<close> sends: January 1 of year 1 instead of the file's time.
\<close>

theorem exif_without_timestamp_sends_zero_time:
  "f_stat ex_entry = Inr (3, ex_time) \<and>
   f_exif ex_entry = Tags [(''Make'', ''Canon'')] None \<and>
   process_file ex_config (ex_world ''image/jpeg'' (ex_reply 409 ''skip'')) ex_entry =
     (None, [PostMetadata ''https://coordinator.example/upload_request'' (''alice'', ''secret'')
               \<lparr>ID = ''0a1b'', Name = ''a.jpg'', Mtime = zero_Time, Bytes = 3,
                  ContentType = ''image/jpeg'', TestUpload = True\<rparr>,
             Rename ''pending/a.jpg'' ''done/a.jpg'']) \<and>
   process_file ex_config (ex_world ''image/jpeg'' (ex_reply 409 ''skip''))
       (ex_entry\<lparr>f_exif := Tags [(''DateTime'', ''0000:00:00 00:00:00'')] None\<rparr>) =
     (None, [PostMetadata ''https://coordinator.example/upload_request'' (''alice'', ''secret'')
               \<lparr>ID = ''0a1b'', Name = ''a.jpg'', Mtime = zero_Time, Bytes = 3,
                  ContentType = ''image/jpeg'', TestUpload = True\<rparr>,
             Rename ''pending/a.jpg'' ''done/a.jpg'']) \<and>
   zero_Time \<noteq> ex_time"
  by (simp add: process_file_def Let_def SplitN_2 readExifInfo_def exif_cb_def ExifInfo0_def
      requestUploadURL_def ex_reply_def StatusSkipUpload_def UploadDestination0_def)
     (simp add: zero_Time_def ex_time_def)

section \<open>The store key\<close>

text \<open>
  Claim C3 says that two metadata with the same id and different modification times or
  different names have different store keys. They need not: the timestamp in the key
  has tenths of a second at most, so two times 10 ms apart give one key, and
  \<^verbatim>\<open>path.Join\<close> cleans the path, so a name and the same name with a trailing slash
  give one key.
\<close>

theorem store_key_collision:
  "ID (ex_meta\<lparr>Mtime := ex_time\<lparr>Nanosecond := 20000000\<rparr>\<rparr>) = ID ex_meta \<and>
   Name (ex_meta\<lparr>Mtime := ex_time\<lparr>Nanosecond := 20000000\<rparr>\<rparr>) = Name ex_meta \<and>
   Mtime (ex_meta\<lparr>Mtime := ex_time\<lparr>Nanosecond := 20000000\<rparr>\<rparr>) \<noteq> Mtime ex_meta \<and>
   s3Path_of ex_server (ex_meta\<lparr>Mtime := ex_time\<lparr>Nanosecond := 20000000\<rparr>\<rparr>) =
     s3Path_of ex_server ex_meta \<and>
   ID (ex_meta\<lparr>Name := ''a.jpg/''\<rparr>) = ID ex_meta \<and>
   Name (ex_meta\<lparr>Name := ''a.jpg/''\<rparr>) \<noteq> Name ex_meta \<and>
   s3Path_of ex_server (ex_meta\<lparr>Name := ''a.jpg/''\<rparr>) = s3Path_of ex_server ex_meta"
proof -
  have 1: "s3Path_of ex_server (ex_meta\<lparr>Mtime := ex_time\<lparr>Nanosecond := 20000000\<rparr>\<rparr>) =
      ''photos/2021-03-04-05_06_07-0a1b-a.jpg''"
    by (simp add: s3Path_of_def ex_time_def eval_time eval_path)
  have 2: "s3Path_of ex_server (ex_meta\<lparr>Name := ''a.jpg/''\<rparr>) = ''photos/2021-03-04-05_06_07-0a1b-a.jpg''"
    by (simp add: s3Path_of_def ex_time_def eval_time eval_path)
  have 3: "ex_time\<lparr>Nanosecond := 20000000\<rparr> \<noteq> ex_time" by (simp add: ex_time_def)
  from 1 2 3 show ?thesis by (simp add: ex_s3Path)
qed

text \<open>
  Claim C3 as amended. The store key is \<^verbatim>\<open>path.Join\<close> of the path prefix and of
  timestamp, id and name joined with dashes, the timestamp being the civil date and
  clock time of the modification time with at most one digit of the fraction of the
  second. For two metadata with the same id, when the id and both names have no slash,
  the keys differ exactly when the names differ or the modification times differ in
  year, month, day, hour, minute, second or tenth of a second.
\<close>

theorem store_key_distinct:
  assumes "ID m1 = ID m2"
    and "list_all notSlash (ID m1)" and "list_all notSlash (Name m1)" and "list_all notSlash (Name m2)"
  shows "s3Path_of s m1 =
           Join [pathPrefix s, Format_key (Mtime m1) @ ''-'' @ ID m1 @ ''-'' @ Name m1] \<and>
         (s3Path_of s m1 \<noteq> s3Path_of s m2) =
           (Name m1 \<noteq> Name m2 \<or>
            Year (Mtime m1) \<noteq> Year (Mtime m2) \<or> Month (Mtime m1) \<noteq> Month (Mtime m2) \<or>
            Day (Mtime m1) \<noteq> Day (Mtime m2) \<or> Hour (Mtime m1) \<noteq> Hour (Mtime m2) \<or>
            Minute (Mtime m1) \<noteq> Minute (Mtime m2) \<or> Second (Mtime m1) \<noteq> Second (Mtime m2) \<or>
            Nanosecond (Mtime m1) div 10 ^ 8 mod 10 \<noteq> Nanosecond (Mtime m2) div 10 ^ 8 mod 10)"
proof -
  have "s3Path_of s m1 = Join [pathPrefix s, Format_key (Mtime m1) @ ''-'' @ ID m1 @ ''-'' @ Name m1]"
    by (simp add: s3Path_of_def Let_def)
  moreover have "(s3Path_of s m1 = s3Path_of s m2) =
      (Format_key (Mtime m1) = Format_key (Mtime m2) \<and> Name m1 = Name m2)"
    using assms by (rule s3Path_collision)
  ultimately show ?thesis
    unfolding Format_key_eq_iff by blast
qed

text \<open>
  Claim C3 as amended, an instance: two modification times one second apart.
\<close>

theorem store_key_distinct_witness:
  "ID ex_meta = ID (ex_meta\<lparr>Mtime := ex_time\<lparr>Second := 8\<rparr>\<rparr>) \<and>
   list_all notSlash (ID ex_meta) \<and> list_all notSlash (Name ex_meta) \<and>
   list_all notSlash (Name (ex_meta\<lparr>Mtime := ex_time\<lparr>Second := 8\<rparr>\<rparr>)) \<and>
   Second (Mtime ex_meta) \<noteq> Second (Mtime (ex_meta\<lparr>Mtime := ex_time\<lparr>Second := 8\<rparr>\<rparr>)) \<and>
   s3Path_of ex_server ex_meta \<noteq> s3Path_of ex_server (ex_meta\<lparr>Mtime := ex_time\<lparr>Second := 8\<rparr>\<rparr>)"
proof -
  let ?m2 = "ex_meta\<lparr>Mtime := ex_time\<lparr>Second := 8\<rparr>\<rparr>"
  have a: "ID ex_meta = ID ?m2" by simp
  have b: "list_all notSlash (ID ex_meta)" "list_all notSlash (Name ex_meta)"
    "list_all notSlash (Name ?m2)"
    by (simp_all add: notSlash_def)
  have c: "Second (Mtime ex_meta) \<noteq> Second (Mtime ?m2)" by (simp add: ex_time_def)
  from store_key_distinct [OF a b, of ex_server] c
  have "s3Path_of ex_server ex_meta \<noteq> s3Path_of ex_server ?m2" by blast
  with a b c show ?thesis by blast
qed

end
